theory Spec2Isabelle
  imports Complex_Main
begin

section \<open>Floating-point values\<close>

text \<open>
  The engine computes with Python floats and NumPy float64 arrays. A value is a finite
  number, an infinity or NaN. Finite values are modelled as reals and arithmetic on them
  is exact: rounding, overflow and the sign of zero are outside this model. The special
  values follow IEEE 754 as NumPy applies it (division by zero gives an infinity or NaN,
  every comparison with NaN is false, NaN propagates through arithmetic).
\<close>

datatype fl = Fin real | PInf | NInf | NaN

fun isfinite :: "fl \<Rightarrow> bool" where
  "isfinite (Fin a) = True"
| "isfinite PInf = False"
| "isfinite NInf = False"
| "isfinite NaN = False"

fun fl_sign :: "fl \<Rightarrow> int" where
  "fl_sign (Fin a) = (if 0 < a then 1 else if a < 0 then - 1 else 0)"
| "fl_sign PInf = 1"
| "fl_sign NInf = - 1"
| "fl_sign NaN = 0"

definition inf_of_sign :: "int \<Rightarrow> fl" where
  "inf_of_sign s = (if 0 < s then PInf else if s < 0 then NInf else NaN)"

fun fl_neg :: "fl \<Rightarrow> fl" where
  "fl_neg (Fin a) = Fin (- a)"
| "fl_neg PInf = NInf"
| "fl_neg NInf = PInf"
| "fl_neg NaN = NaN"

fun fl_add :: "fl \<Rightarrow> fl \<Rightarrow> fl" where
  "fl_add NaN y = NaN"
| "fl_add x NaN = NaN"
| "fl_add (Fin a) (Fin b) = Fin (a + b)"
| "fl_add PInf NInf = NaN"
| "fl_add NInf PInf = NaN"
| "fl_add PInf y = PInf"
| "fl_add NInf y = NInf"
| "fl_add (Fin a) y = y"

definition fl_sub :: "fl \<Rightarrow> fl \<Rightarrow> fl" where
  "fl_sub x y = fl_add x (fl_neg y)"

fun fl_mul :: "fl \<Rightarrow> fl \<Rightarrow> fl" where
  "fl_mul NaN y = NaN"
| "fl_mul x NaN = NaN"
| "fl_mul (Fin a) (Fin b) = Fin (a * b)"
| "fl_mul x y = inf_of_sign (fl_sign x * fl_sign y)"

text \<open>
  NumPy's division: a finite value divided by zero is an infinity of the sign of the
  numerator, and zero divided by zero is NaN. Nothing is raised.
\<close>

fun fl_div :: "fl \<Rightarrow> fl \<Rightarrow> fl" where
  "fl_div NaN y = NaN"
| "fl_div x NaN = NaN"
| "fl_div (Fin a) (Fin b) = (if b = 0 then inf_of_sign (fl_sign (Fin a)) else Fin (a / b))"
| "fl_div (Fin a) y = Fin 0"
| "fl_div x (Fin b) = inf_of_sign (fl_sign x * (if b < 0 then - 1 else 1))"
| "fl_div x y = NaN"

text \<open>\<open>np.power\<close> with an integer-valued exponent.\<close>

fun fl_pow :: "fl \<Rightarrow> nat \<Rightarrow> fl" where
  "fl_pow x 0 = Fin 1"
| "fl_pow x (Suc n) = fl_mul x (fl_pow x n)"

definition np_power :: "fl \<Rightarrow> int \<Rightarrow> fl" where
  "np_power x k = (if 0 \<le> k then fl_pow x (nat k) else fl_div (Fin 1) (fl_pow x (nat (- k))))"

fun fl_less :: "fl \<Rightarrow> fl \<Rightarrow> bool" where
  "fl_less NaN y = False"
| "fl_less x NaN = False"
| "fl_less (Fin a) (Fin b) = (a < b)"
| "fl_less x NInf = False"
| "fl_less PInf y = False"
| "fl_less NInf y = True"
| "fl_less (Fin a) PInf = True"

fun fl_le :: "fl \<Rightarrow> fl \<Rightarrow> bool" where
  "fl_le NaN y = False"
| "fl_le x NaN = False"
| "fl_le (Fin a) (Fin b) = (a \<le> b)"
| "fl_le NInf y = True"
| "fl_le x PInf = True"
| "fl_le PInf y = False"
| "fl_le (Fin a) NInf = False"

text \<open>\<open>np.minimum\<close>, \<open>np.maximum\<close> and \<open>np.clip\<close> propagate NaN.\<close>

definition np_minimum :: "fl \<Rightarrow> fl \<Rightarrow> fl" where
  "np_minimum x y = (if x = NaN \<or> y = NaN then NaN else if fl_less y x then y else x)"

definition np_maximum :: "fl \<Rightarrow> fl \<Rightarrow> fl" where
  "np_maximum x y = (if x = NaN \<or> y = NaN then NaN else if fl_less x y then y else x)"

definition np_clip :: "fl \<Rightarrow> fl \<Rightarrow> fl \<Rightarrow> fl" where
  "np_clip x lo hi = np_minimum (np_maximum x lo) hi"

text \<open>Python's built-in \<open>min(a, b)\<close>: the second argument only when it is smaller.\<close>

definition py_min :: "fl \<Rightarrow> fl \<Rightarrow> fl" where
  "py_min a b = (if fl_less b a then b else a)"

text \<open>Python's built-in \<open>max\<close> over a non-empty list: a later item replaces the
  running maximum only when it is greater.\<close>

definition py_max :: "fl list \<Rightarrow> fl" where
  "py_max xs = foldl (\<lambda>m x. if fl_less m x then x else m) (hd xs) (tl xs)"

fun np_exp :: "fl \<Rightarrow> fl" where
  "np_exp (Fin a) = Fin (exp a)"
| "np_exp PInf = PInf"
| "np_exp NInf = Fin 0"
| "np_exp NaN = NaN"

definition np_sum :: "fl list \<Rightarrow> fl" where
  "np_sum xs = foldl fl_add (Fin 0) xs"

section \<open>Errors\<close>

datatype py_error =
  ValueError string
| TypeError
| IndexError
| AttributeError
| ZeroDivisionError

text \<open>Python's division of two floats raises on a zero divisor.\<close>

definition py_div :: "fl \<Rightarrow> fl \<Rightarrow> py_error + fl" where
  "py_div x y = (if y = Fin 0 then Inl ZeroDivisionError else Inr (fl_div x y))"

section \<open>Input normalisation\<close>

definition validate_inputs :: "fl \<Rightarrow> fl \<Rightarrow> int \<Rightarrow> py_error + unit" where
  "validate_inputs wacc tg years =
     (if years < 3 \<or> 10 < years then
        Inl (ValueError ''years must be between 3 and 10'')
      else if fl_le wacc tg then
        Inl (ValueError ''WACC must be strictly greater than terminal growth'')
      else if fl_less wacc (Fin 0) \<or> fl_less tg (Fin 0) then
        Inl (ValueError ''WACC and terminal growth must be non negative'')
      else Inr ())"

definition pick_base_fcf :: "fl list \<Rightarrow> fl" where
  "pick_base_fcf fcf_history =
     (if fcf_history = [] then Fin 1000000000
      else
        let most_recent = last fcf_history in
        if fl_less (Fin 0) most_recent then most_recent
        else
          let positives = filter (\<lambda>x. fl_less (Fin 0) x) fcf_history in
          if positives \<noteq> [] then py_max positives else Fin 1000000000)"

section \<open>Base case\<close>

record CapitalBridge =
  net_debt :: fl
  non_operating_assets :: fl
  minority_interest :: fl
  other_adjustments :: fl

definition default_bridge :: CapitalBridge where
  "default_bridge =
     \<lparr>net_debt = Fin 0, non_operating_assets = Fin 0,
      minority_interest = Fin 0, other_adjustments = Fin 0\<rparr>"

record base_breakdown =
  enterprise_value :: fl
  equity_value :: fl
  equity_value_per_share :: fl
  pv_explicit_period :: fl
  pv_terminal_value :: fl
  terminal_value_gordon :: fl
  terminal_value_share_of_ev :: fl
  fcf_projections :: "fl list"
  pv_fcf_projections :: "fl list"
  terminal_fcf_year :: fl
  shares_end_year :: fl

text \<open>\<open>np.arange(1, years + 1)\<close> is the list \<open>[1..years]\<close>, empty when \<open>years < 1\<close>.\<close>

definition project_fcf :: "fl \<Rightarrow> fl \<Rightarrow> int \<Rightarrow> fl list" where
  "project_fcf base_fcf g yrs =
     map (\<lambda>t. fl_mul base_fcf (np_power (fl_add (Fin 1) g) t)) [1..yrs]"

definition pv_series :: "fl list \<Rightarrow> fl \<Rightarrow> fl list" where
  "pv_series cashflows rate =
     map (\<lambda>(c, t). fl_div c (np_power (fl_add (Fin 1) rate) t))
       (zip cashflows [1..int (length cashflows)])"

definition terminal_value :: "fl \<Rightarrow> fl \<Rightarrow> fl \<Rightarrow> py_error + fl" where
  "terminal_value last_fcf w tg =
     (let tg1 = (if fl_le w tg then py_min tg (fl_sub w (Fin (1 / 1000000))) else tg)
      in py_div (fl_mul last_fcf (fl_add (Fin 1) tg1)) (fl_sub w tg1))"

definition shares_path :: "fl \<Rightarrow> fl \<Rightarrow> int \<Rightarrow> fl" where
  "shares_path start_shares annual_change yrs =
     fl_mul start_shares (np_power (fl_add (Fin 1) annual_change) yrs)"

definition bridge_to_equity :: "CapitalBridge \<Rightarrow> fl \<Rightarrow> fl" where
  \<comment> \<open>\<open>ev - net_debt + non_operating_assets - minority_interest + other_adjustments\<close>\<close>
  "bridge_to_equity b ev =
     fl_add (fl_sub (fl_add (fl_sub ev (net_debt b)) (non_operating_assets b))
               (minority_interest b)) (other_adjustments b)"

definition base_case_breakdown ::
  "fl \<Rightarrow> fl \<Rightarrow> fl \<Rightarrow> fl \<Rightarrow> int \<Rightarrow> fl \<Rightarrow> fl \<Rightarrow> CapitalBridge \<Rightarrow> py_error + base_breakdown" where
  "base_case_breakdown base_fcf g w tg yrs shares_out share_change b =
     (let fcf = project_fcf base_fcf g yrs;
          pv_explicit = pv_series fcf w
      in if fcf = [] then Inl IndexError
         else
           let terminal_fcf = last fcf in
           case terminal_value terminal_fcf w tg of
             Inl e \<Rightarrow> Inl e
           | Inr tv \<Rightarrow>
               let pv_tv = fl_div tv (np_power (fl_add (Fin 1) w) yrs);
                   ev = fl_add (np_sum pv_explicit) pv_tv;
                   eq_value = bridge_to_equity b ev;
                   end_shares = shares_path shares_out share_change yrs;
                   per_share =
                     (if fl_less (Fin 0) end_shares then fl_div eq_value end_shares else NaN)
               in Inr \<lparr>enterprise_value = ev,
                       equity_value = eq_value,
                       equity_value_per_share = per_share,
                       pv_explicit_period = np_sum pv_explicit,
                       pv_terminal_value = pv_tv,
                       terminal_value_gordon = tv,
                       terminal_value_share_of_ev =
                         (if fl_less (Fin 0) ev then fl_div pv_tv ev else NaN),
                       fcf_projections = fcf,
                       pv_fcf_projections = pv_explicit,
                       terminal_fcf_year = terminal_fcf,
                       shares_end_year = end_shares\<rparr>)"

section \<open>Random number generation\<close>

text \<open>
  The engine draws from NumPy's process-wide generator. Its state is passed explicitly; the
  primitive draws (a uniform value of the unit interval, a standard normal value, a
  Student-t value for a number of degrees of freedom, a selection of indices without
  replacement, and re-seeding) are parameters of the model. A draw of \<open>n\<close> values is \<open>n\<close>
  single draws in sequence.
\<close>

record 'g np_random =
  rng_seed :: "int \<Rightarrow> 'g"
  rng_uniform :: "'g \<Rightarrow> real \<times> 'g"
  rng_gauss :: "'g \<Rightarrow> real \<times> 'g"
  rng_student_t :: "nat \<Rightarrow> 'g \<Rightarrow> real \<times> 'g"
  rng_choice :: "nat \<Rightarrow> nat \<Rightarrow> 'g \<Rightarrow> nat list \<times> 'g"

fun draw_n :: "('g \<Rightarrow> real \<times> 'g) \<Rightarrow> nat \<Rightarrow> 'g \<Rightarrow> real list \<times> 'g" where
  "draw_n f 0 s = ([], s)"
| "draw_n f (Suc n) s =
     (case f s of (x, s1) \<Rightarrow> (case draw_n f n s1 of (xs, s2) \<Rightarrow> (x # xs, s2)))"

definition random_rand :: "'g np_random \<Rightarrow> nat \<Rightarrow> 'g \<Rightarrow> fl list \<times> 'g" where
  "random_rand rng n s = (case draw_n (rng_uniform rng) n s of (us, s1) \<Rightarrow> (map Fin us, s1))"

text \<open>\<open>np.random.normal(loc, scale, size=n)\<close> is \<open>loc + scale * z\<close> for standard normal \<open>z\<close>.\<close>

definition random_normal :: "'g np_random \<Rightarrow> fl \<Rightarrow> fl \<Rightarrow> nat \<Rightarrow> 'g \<Rightarrow> fl list \<times> 'g" where
  "random_normal rng loc scale n s =
     (case draw_n (rng_gauss rng) n s of
        (zs, s1) \<Rightarrow> (map (\<lambda>z. fl_add loc (fl_mul scale (Fin z))) zs, s1))"

definition random_standard_t :: "'g np_random \<Rightarrow> nat \<Rightarrow> nat \<Rightarrow> 'g \<Rightarrow> fl list \<times> 'g" where
  "random_standard_t rng df n s =
     (case draw_n (rng_student_t rng df) n s of (ts, s1) \<Rightarrow> (map Fin ts, s1))"

text \<open>
  The contract of \<open>np.random.choice(np.arange(n), size=k, replace=False)\<close> for \<open>k \<le> n\<close>:
  \<open>k\<close> distinct indices below \<open>n\<close>.
\<close>

definition choice_ok :: "'g np_random \<Rightarrow> bool" where
  "choice_ok rng \<longleftrightarrow>
     (\<forall>n k s. k \<le> n \<longrightarrow>
        length (fst (rng_choice rng n k s)) = k
        \<and> distinct (fst (rng_choice rng n k s))
        \<and> (\<forall>i\<in>set (fst (rng_choice rng n k s)). i < n))"

section \<open>Monte Carlo engine\<close>

record scenario =
  sc_base_fcf :: fl
  sc_growth_rate :: fl
  sc_wacc :: fl
  sc_terminal_growth :: fl
  sc_enterprise_value :: fl
  sc_equity_value_per_share :: fl
  sc_recession :: bool

text \<open>The arrays of one run, one entry per trial.\<close>

record mc_draws =
  d_recession :: "bool list"
  d_g :: "fl list"
  d_w :: "fl list"
  d_tg :: "fl list"
  d_base_draw :: "fl list"

text \<open>
  The per-share result is an array when the projected share count is positive and the
  Python float \<open>np.nan\<close> otherwise.
\<close>

datatype mc_values = Arr "fl list" | Scalar fl

text \<open>The element-wise expressions of the array computation, for one trial.\<close>

definition trial_growth :: "fl \<Rightarrow> bool \<Rightarrow> fl \<Rightarrow> fl \<Rightarrow> fl" where
  \<comment> \<open>\<open>np.clip(np.where(recession, np.minimum(core_g, base_growth - 0.03),
      0.7 * core_g + 0.3 * tail_g), -0.30, 0.40)\<close>\<close>
  "trial_growth base_growth r core tail =
     np_clip (if r then np_minimum core (fl_sub base_growth (Fin (3 / 100)))
              else fl_add (fl_mul (Fin (7 / 10)) core) (fl_mul (Fin (3 / 10)) tail))
       (Fin (- (30 / 100))) (Fin (40 / 100))"

definition trial_wacc :: "bool \<Rightarrow> fl \<Rightarrow> fl \<Rightarrow> fl" where
  \<comment> \<open>\<open>np.clip(np.where(recession, w + 0.01, w), 0.05, 0.20)\<close> for
      \<open>w = 0.7 * core_w + 0.3 * tail_w\<close>\<close>
  "trial_wacc r core tail =
     (let w = fl_add (fl_mul (Fin (7 / 10)) core) (fl_mul (Fin (3 / 10)) tail)
      in np_clip (if r then fl_add w (Fin (1 / 100)) else w) (Fin (5 / 100)) (Fin (20 / 100)))"

definition trial_tg :: "fl \<Rightarrow> fl \<Rightarrow> fl" where
  \<comment> \<open>\<open>np.minimum(np.clip(tg, 0.005, 0.04), w - 1e-4)\<close>\<close>
  "trial_tg x w =
     np_minimum (np_clip x (Fin (5 / 1000)) (Fin (4 / 100))) (fl_sub w (Fin (1 / 10000)))"

definition trial_base :: "fl \<Rightarrow> bool \<Rightarrow> fl \<Rightarrow> fl" where
  \<comment> \<open>\<open>np.where(recession, base_draw * 0.9, base_draw)\<close> for
      \<open>base_draw = base_fcf * np.exp(noise)\<close>\<close>
  "trial_base base_fcf r noise =
     (let b = fl_mul base_fcf (np_exp noise) in if r then fl_mul b (Fin (9 / 10)) else b)"

definition mc_sample ::
  "'g np_random \<Rightarrow> fl \<Rightarrow> fl \<Rightarrow> fl \<Rightarrow> fl \<Rightarrow> nat \<Rightarrow> fl \<Rightarrow> 'g \<Rightarrow> mc_draws \<times> 'g" where
  "mc_sample rng base_fcf base_growth base_wacc base_tg n rec_prob s0 =
     (case random_rand rng n s0 of (us, s1) \<Rightarrow>
      case random_normal rng base_growth (Fin (2 / 100)) n s1 of (core_g, s2) \<Rightarrow>
      case random_standard_t rng 5 n s2 of (t5, s3) \<Rightarrow>
      case random_normal rng base_wacc (Fin (1 / 100)) n s3 of (core_w, s4) \<Rightarrow>
      case random_standard_t rng 6 n s4 of (t6, s5) \<Rightarrow>
      case random_normal rng base_tg (Fin (3 / 1000)) n s5 of (tg_raw, s6) \<Rightarrow>
      case random_normal rng (Fin 0) (Fin (ln (1 + 10 / 100))) n s6 of (noise, s7) \<Rightarrow>
        let recession = map (\<lambda>u. fl_less u rec_prob) us;
            tail_g = map (\<lambda>t. fl_add base_growth (fl_mul (Fin (4 / 100)) t)) t5;
            g = map (\<lambda>(r, c, t). trial_growth base_growth r c t)
                  (zip recession (zip core_g tail_g));
            tail_w = map (\<lambda>t. fl_add base_wacc (fl_mul (Fin (2 / 100)) t)) t6;
            w = map (\<lambda>(r, c, t). trial_wacc r c t) (zip recession (zip core_w tail_w));
            tg = map (\<lambda>(x, wi). trial_tg x wi) (zip tg_raw w);
            base_draw = map (\<lambda>(r, z). trial_base base_fcf r z) (zip recession noise)
        in (\<lparr>d_recession = recession, d_g = g, d_w = w, d_tg = tg,
             d_base_draw = base_draw\<rparr>, s7))"

definition trial_ev :: "int \<Rightarrow> fl \<Rightarrow> fl \<Rightarrow> fl \<Rightarrow> fl \<Rightarrow> fl" where
  \<comment> \<open>one row of \<open>fcf_paths\<close> and \<open>disc_matrix\<close>, and the entry of \<open>ev\<close> it gives;
      \<open>yrs \<ge> 1\<close> where this is used\<close>
  "trial_ev yrs b g w tg =
     (let fcf_path = map (\<lambda>t. fl_mul b (np_power (fl_add (Fin 1) g) t)) [1..yrs];
          disc = map (\<lambda>t. np_power (fl_add (Fin 1) w) t) [1..yrs];
          pv_explicit = np_sum (map (\<lambda>(f, d). fl_div f d) (zip fcf_path disc));
          terminal_fcf = last fcf_path;
          tv = fl_div (fl_mul terminal_fcf (fl_add (Fin 1) tg)) (fl_sub w tg);
          pv_tv = fl_div tv (np_power (fl_add (Fin 1) w) yrs)
      in fl_add pv_explicit pv_tv)"

definition bind_err :: "py_error + 'a \<Rightarrow> ('a \<Rightarrow> py_error + 'b) \<Rightarrow> py_error + 'b" where
  "bind_err r f = (case r of Inl e \<Rightarrow> Inl e | Inr x \<Rightarrow> f x)"

definition np_index :: "'a list \<Rightarrow> nat \<Rightarrow> py_error + 'a" where
  "np_index xs i = (if i < length xs then Inr (xs ! i) else Inl IndexError)"

text \<open>Subscripting the per-share result: a Python float is not subscriptable.\<close>

definition values_index :: "mc_values \<Rightarrow> nat \<Rightarrow> py_error + fl" where
  "values_index v i = (case v of Scalar x \<Rightarrow> Inl TypeError | Arr xs \<Rightarrow> np_index xs i)"

definition scenario_at :: "mc_draws \<Rightarrow> fl list \<Rightarrow> mc_values \<Rightarrow> nat \<Rightarrow> py_error + scenario" where
  "scenario_at d ev per_share i =
     bind_err (np_index (d_base_draw d) i) (\<lambda>b.
     bind_err (np_index (d_g d) i) (\<lambda>g.
     bind_err (np_index (d_w d) i) (\<lambda>w.
     bind_err (np_index (d_tg d) i) (\<lambda>tg.
     bind_err (np_index ev i) (\<lambda>e.
     bind_err (values_index per_share i) (\<lambda>p.
     bind_err (np_index (d_recession d) i) (\<lambda>r.
       Inr \<lparr>sc_base_fcf = b, sc_growth_rate = g, sc_wacc = w, sc_terminal_growth = tg,
            sc_enterprise_value = e, sc_equity_value_per_share = p,
            sc_recession = r\<rparr>)))))))"

fun scenario_details ::
  "mc_draws \<Rightarrow> fl list \<Rightarrow> mc_values \<Rightarrow> nat list \<Rightarrow> py_error + scenario list" where
  "scenario_details d ev per_share [] = Inr []"
| "scenario_details d ev per_share (i # idx) =
     bind_err (scenario_at d ev per_share i) (\<lambda>sc.
     bind_err (scenario_details d ev per_share idx) (\<lambda>scs. Inr (sc # scs)))"

definition monte_carlo_vectorized ::
  "'g np_random \<Rightarrow> fl \<Rightarrow> fl \<Rightarrow> fl \<Rightarrow> fl \<Rightarrow> int \<Rightarrow> fl \<Rightarrow> fl \<Rightarrow> CapitalBridge \<Rightarrow> int \<Rightarrow> fl \<Rightarrow> 'g
     \<Rightarrow> (py_error + mc_values \<times> scenario list) \<times> 'g" where
  "monte_carlo_vectorized rng base_fcf base_growth base_wacc base_tg yrs shares share_change
       b n_runs rec_prob s0 =
     (if n_runs < 0 then (Inl (ValueError ''negative dimensions are not allowed''), s0)
      else
        let n = nat n_runs in
        case mc_sample rng base_fcf base_growth base_wacc base_tg n rec_prob s0 of
          (d, s7) \<Rightarrow>
            if yrs < 1 then (Inl IndexError, s7)
            else
              let ev = map (\<lambda>(bd, g, w, tg). trial_ev yrs bd g w tg)
                         (zip (d_base_draw d) (zip (d_g d) (zip (d_w d) (d_tg d))));
                  equity = map (bridge_to_equity b) ev;
                  end_shares = shares_path shares share_change yrs;
                  per_share =
                    (if fl_less (Fin 0) end_shares
                     then Arr (map (\<lambda>e. fl_div e end_shares) equity)
                     else Scalar NaN)
              in case rng_choice rng n (min 25 n) s7 of
                   (idx, s8) \<Rightarrow>
                     (bind_err (scenario_details d ev per_share idx)
                        (\<lambda>details. Inr (per_share, details)), s8))"

section \<open>Summary statistics\<close>

record mc_summary =
  mc_mean :: fl
  mc_median :: fl
  mc_std :: fl
  mc_p5 :: fl
  mc_p25 :: fl
  mc_p75 :: fl
  mc_p95 :: fl
  mc_min :: fl
  mc_max :: fl
  mc_count :: nat

text \<open>\<open>per_share[np.isfinite(per_share)]\<close>: the finite entries, in order.\<close>

fun finite_values :: "fl list \<Rightarrow> real list" where
  "finite_values [] = []"
| "finite_values (Fin a # xs) = a # finite_values xs"
| "finite_values (x # xs) = finite_values xs"

text \<open>NumPy's reductions on a non-empty array of finite values.\<close>

definition np_mean :: "real list \<Rightarrow> real" where
  "np_mean xs = sum_list xs / real (length xs)"

definition np_std :: "real list \<Rightarrow> real" where
  \<comment> \<open>population standard deviation\<close>
  "np_std xs = sqrt (np_mean (map (\<lambda>x. (x - np_mean xs)\<^sup>2) xs))"

definition np_median :: "real list \<Rightarrow> real" where
  "np_median xs =
     (let s = sort xs; n = length xs
      in if odd n then s ! (n div 2) else (s ! (n div 2 - 1) + s ! (n div 2)) / 2)"

definition np_percentile :: "real list \<Rightarrow> real \<Rightarrow> real" where
  \<comment> \<open>linear interpolation between the two nearest order statistics\<close>
  "np_percentile xs q =
     (let s = sort xs; n = length xs;
          v = real (n - 1) * (q / 100);
          prev = nat \<lfloor>v\<rfloor>;
          nxt = min (prev + 1) (n - 1);
          gam = v - real prev
      in s ! prev + (s ! nxt - s ! prev) * gam)"

definition np_amin :: "real list \<Rightarrow> real" where
  "np_amin xs = Min (set xs)"

definition np_amax :: "real list \<Rightarrow> real" where
  "np_amax xs = Max (set xs)"

definition nan_summary :: mc_summary where
  "nan_summary =
     \<lparr>mc_mean = NaN, mc_median = NaN, mc_std = NaN, mc_p5 = NaN, mc_p25 = NaN,
      mc_p75 = NaN, mc_p95 = NaN, mc_min = NaN, mc_max = NaN, mc_count = 0\<rparr>"

definition summarize_mc :: "mc_values \<Rightarrow> py_error + mc_summary" where
  "summarize_mc v =
     (case v of
        Scalar x \<Rightarrow> Inl AttributeError
      | Arr per_share \<Rightarrow>
          if per_share = [] \<or> \<not> list_ex isfinite per_share then Inr nan_summary
          else
            let clean = finite_values per_share
            in Inr \<lparr>mc_mean = Fin (np_mean clean),
                    mc_median = Fin (np_median clean),
                    mc_std = Fin (np_std clean),
                    mc_p5 = Fin (np_percentile clean 5),
                    mc_p25 = Fin (np_percentile clean 25),
                    mc_p75 = Fin (np_percentile clean 75),
                    mc_p95 = Fin (np_percentile clean 95),
                    mc_min = Fin (np_amin clean),
                    mc_max = Fin (np_amax clean),
                    mc_count = length clean\<rparr>)"

section \<open>Diagnostics\<close>

record dcf_diagnostics =
  terminal_value_share :: fl
  terminal_value_dominant :: bool
  duration_years_pv_cashflows :: fl
  pv_explicit_to_pv_terminal_ratio :: fl
  health_flags :: "string list"

definition duration_years :: "fl list \<Rightarrow> fl" where
  "duration_years fcf_pv =
     (if fcf_pv \<noteq> [] \<and> list_all isfinite fcf_pv then
        let weights =
              (if fl_less (Fin 0) (np_sum fcf_pv)
               then map (\<lambda>x. fl_div x (np_sum fcf_pv)) fcf_pv
               else map (\<lambda>x. Fin 0) fcf_pv)
        in np_sum (map (\<lambda>(t, wt). fl_mul (Fin (real_of_int t)) wt)
                     (zip [1..int (length fcf_pv)] weights))
      else NaN)"

definition diagnostics :: "base_breakdown \<Rightarrow> fl \<Rightarrow> fl \<Rightarrow> int \<Rightarrow> dcf_diagnostics" where
  "diagnostics base w tg yrs =
     (let ev = enterprise_value base;
          pv_exp = pv_explicit_period base;
          pv_tv = pv_terminal_value base;
          terminal_share = (if fl_less (Fin 0) ev then fl_div pv_tv ev else NaN);
          terminal_dominant =
            (if isfinite terminal_share then fl_less (Fin (7 / 10)) terminal_share else False);
          dur = duration_years (pv_fcf_projections base);
          flags =
            (if fl_le w tg then [''WACC not greater than terminal growth''] else [])
            @ (if \<not> isfinite ev \<or> fl_le ev (Fin 0)
               then [''Enterprise value non positive''] else [])
            @ (if dur \<noteq> Fin 0 \<and> fl_less dur (Fin 2)
               then [''Short duration implies heavy back loading''] else [])
            @ (if terminal_dominant
               then [''Terminal value dominates the enterprise value''] else [])
      in \<lparr>terminal_value_share = terminal_share,
          terminal_value_dominant = terminal_dominant,
          duration_years_pv_cashflows = dur,
          pv_explicit_to_pv_terminal_ratio =
            (if fl_less (Fin 0) pv_tv then fl_div pv_exp pv_tv else NaN),
          health_flags = flags\<rparr>)"

section \<open>Public entry point\<close>

text \<open>
  The caller's numbers are finite: the arguments of the entry point are reals (and an
  integer horizon and run count), injected into the floats with \<open>Fin\<close>.
\<close>

record dcf_input =
  arg_fcf_history :: "real list"
  arg_fcf_growth_rate :: real
  arg_wacc :: real
  arg_terminal_growth :: real
  arg_shares_outstanding :: real
  arg_monte_carlo_runs :: int
  arg_years :: int
  arg_bridge :: "CapitalBridge option"
  arg_annual_share_change :: real
  arg_treat_sbc_as_cash_cost :: bool
  arg_sbc_percent_of_fcf :: real
  arg_real_mode :: bool
  arg_inflation :: real
  arg_recession_prob :: real

record dcf_assumptions =
  asm_base_fcf :: fl
  asm_growth_rate :: fl
  asm_wacc :: fl
  asm_terminal_growth :: fl
  asm_years :: int
  asm_shares_outstanding_start :: fl
  asm_annual_share_change :: fl
  asm_treat_sbc_as_cash_cost :: bool
  asm_sbc_percent_of_fcf :: fl
  asm_real_mode :: bool
  asm_inflation :: fl
  asm_recession_prob :: fl

record dcf_results =
  res_base_case :: base_breakdown
  res_monte_carlo :: mc_summary
  res_diagnostics :: dcf_diagnostics
  res_assumptions :: dcf_assumptions
  res_mc_sample_scenarios :: "scenario list"

definition resolved_base_fcf :: "dcf_input \<Rightarrow> fl" where
  \<comment> \<open>the selected base FCF after the stock-compensation adjustment\<close>
  "resolved_base_fcf a =
     (let base_fcf = pick_base_fcf (map Fin (arg_fcf_history a))
      in if arg_treat_sbc_as_cash_cost a \<and> fl_less (Fin 0) (Fin (arg_sbc_percent_of_fcf a))
         then fl_mul base_fcf (fl_sub (Fin 1) (Fin (arg_sbc_percent_of_fcf a)))
         else base_fcf)"

definition to_nominal :: "dcf_input \<Rightarrow> real \<Rightarrow> fl" where
  \<comment> \<open>\<open>(1 + x) * (1 + inflation) - 1\<close> in real mode, \<open>x\<close> otherwise\<close>
  "to_nominal a x =
     (if arg_real_mode a
      then fl_sub (fl_mul (fl_add (Fin 1) (Fin x)) (fl_add (Fin 1) (Fin (arg_inflation a))))
             (Fin 1)
      else Fin x)"

definition calculate_dcf_valuation ::
  "'g np_random \<Rightarrow> dcf_input \<Rightarrow> 'g \<Rightarrow> (py_error + dcf_results) \<times> 'g" where
  "calculate_dcf_valuation rng a s0 =
     (case validate_inputs (Fin (arg_wacc a)) (Fin (arg_terminal_growth a)) (arg_years a) of
        Inl e \<Rightarrow> (Inl e, s0)
      | Inr u \<Rightarrow>
          let base_fcf = resolved_base_fcf a;
              g_nom = to_nominal a (arg_fcf_growth_rate a);
              wacc_nom = to_nominal a (arg_wacc a);
              tg_nom = to_nominal a (arg_terminal_growth a);
              b = (case arg_bridge a of None \<Rightarrow> default_bridge | Some b \<Rightarrow> b);
              shares = Fin (arg_shares_outstanding a);
              share_change = Fin (arg_annual_share_change a)
          in case base_case_breakdown base_fcf g_nom wacc_nom tg_nom (arg_years a)
                    shares share_change b of
               Inl e \<Rightarrow> (Inl e, s0)
             | Inr base \<Rightarrow>
                 (case monte_carlo_vectorized rng base_fcf g_nom wacc_nom tg_nom (arg_years a)
                         shares share_change b (arg_monte_carlo_runs a)
                         (Fin (arg_recession_prob a)) s0 of
                    (Inl e, s1) \<Rightarrow> (Inl e, s1)
                  | (Inr (mc_vals, mc_details), s1) \<Rightarrow>
                      (case summarize_mc mc_vals of
                         Inl e \<Rightarrow> (Inl e, s1)
                       | Inr summary \<Rightarrow>
                           (Inr \<lparr>res_base_case = base,
                                 res_monte_carlo = summary,
                                 res_diagnostics =
                                   diagnostics base wacc_nom tg_nom (arg_years a),
                                 res_assumptions =
                                   \<lparr>asm_base_fcf = base_fcf,
                                    asm_growth_rate = g_nom,
                                    asm_wacc = wacc_nom,
                                    asm_terminal_growth = tg_nom,
                                    asm_years = arg_years a,
                                    asm_shares_outstanding_start = shares,
                                    asm_annual_share_change = share_change,
                                    asm_treat_sbc_as_cash_cost = arg_treat_sbc_as_cash_cost a,
                                    asm_sbc_percent_of_fcf = Fin (arg_sbc_percent_of_fcf a),
                                    asm_real_mode = arg_real_mode a,
                                    asm_inflation = Fin (arg_inflation a),
                                    asm_recession_prob = Fin (arg_recession_prob a)\<rparr>,
                                 res_mc_sample_scenarios = take 10 mc_details\<rparr>, s1))))"



section \<open>A concrete generator\<close>

text \<open>
  A deterministic generator whose state is a counter, used to run the engine on concrete
  inputs. Its draws cycle through a few values; a selection of \<open>k\<close> of \<open>n\<close> indices is the
  last \<open>k\<close> indices in descending order.
\<close>

definition counter_rng :: "nat np_random" where
  "counter_rng =
     \<lparr>rng_seed = (\<lambda>k. nat k),
      rng_uniform = (\<lambda>s. (real (s mod 4) / 4, Suc s)),
      rng_gauss = (\<lambda>s. (real (s mod 3) - 1, Suc s)),
      rng_student_t = (\<lambda>df s. (real (s mod 5) - 2, Suc s)),
      rng_choice = (\<lambda>n k s. (rev [n - k..<n], Suc s))\<rparr>"

section \<open>Auxiliary notions for the statements\<close>

text \<open>The keyword defaults of \<open>calculate_dcf_valuation\<close>.\<close>

definition default_args :: "real list \<Rightarrow> real \<Rightarrow> dcf_input" where
  "default_args history growth =
     \<lparr>arg_fcf_history = history, arg_fcf_growth_rate = growth, arg_wacc = 10 / 100,
      arg_terminal_growth = 25 / 1000, arg_shares_outstanding = 1000000000,
      arg_monte_carlo_runs = 1000, arg_years = 5, arg_bridge = None,
      arg_annual_share_change = 0, arg_treat_sbc_as_cash_cost = True,
      arg_sbc_percent_of_fcf = 0, arg_real_mode = False, arg_inflation = 3 / 100,
      arg_recession_prob = 15 / 100\<rparr>"

text \<open>The three errors that \<open>validate_inputs\<close> raises.\<close>

definition is_validation_error :: "py_error + 'a \<Rightarrow> bool" where
  "is_validation_error r \<longleftrightarrow>
     r = Inl (ValueError ''years must be between 3 and 10'')
     \<or> r = Inl (ValueError ''WACC must be strictly greater than terminal growth'')
     \<or> r = Inl (ValueError ''WACC and terminal growth must be non negative'')"

text \<open>Every array of a run has one entry per trial.\<close>

definition draws_sized :: "mc_draws \<Rightarrow> nat \<Rightarrow> bool" where
  "draws_sized d n \<longleftrightarrow>
     length (d_recession d) = n \<and> length (d_g d) = n \<and> length (d_w d) = n
     \<and> length (d_tg d) = n \<and> length (d_base_draw d) = n"

text \<open>
  The Monte Carlo call that the entry point makes for its arguments, and the trials that
  this call draws.
\<close>

definition mc_call ::
  "'g np_random \<Rightarrow> dcf_input \<Rightarrow> 'g \<Rightarrow> (py_error + mc_values \<times> scenario list) \<times> 'g" where
  "mc_call rng a s =
     monte_carlo_vectorized rng (resolved_base_fcf a) (to_nominal a (arg_fcf_growth_rate a))
       (to_nominal a (arg_wacc a)) (to_nominal a (arg_terminal_growth a)) (arg_years a)
       (Fin (arg_shares_outstanding a)) (Fin (arg_annual_share_change a))
       (case arg_bridge a of None \<Rightarrow> default_bridge | Some b \<Rightarrow> b)
       (arg_monte_carlo_runs a) (Fin (arg_recession_prob a)) s"


definition scenario_a :: dcf_input where
  "scenario_a =
     (default_args [100, 110, 121, 1331 / 10] (5 / 100))
       \<lparr>arg_terminal_growth := 3 / 100, arg_shares_outstanding := 1000\<rparr>"

definition within_tolerance :: "real \<Rightarrow> real \<Rightarrow> fl \<Rightarrow> bool" where
  "within_tolerance tol v x = (case x of Fin a \<Rightarrow> \<bar>a - v\<bar> \<le> tol * \<bar>v\<bar> | _ \<Rightarrow> False)"

definition scenario_a_breakdown :: base_breakdown where
  "scenario_a_breakdown =
     \<lparr>enterprise_value = Fin (375249 / 176),
      equity_value = Fin (375249 / 176),
      equity_value_per_share = Fin (375249 / 176000),
      pv_explicit_period = Fin (22460151 / 38720),
      pv_terminal_value = Fin (60094629 / 38720),
      terminal_value_gordon = Fin (79985951199 / 32000000),
      terminal_value_share_of_ev = Fin (2861649 / 3931180),
      fcf_projections =
        [Fin (27951 / 200), Fin (586971 / 4000), Fin (12326391 / 80000),
         Fin (258854211 / 1600000), Fin (5435938431 / 32000000)],
      pv_fcf_projections =
        [Fin (2541 / 20), Fin (4851 / 40), Fin (9261 / 80),
         Fin (194481 / 1760), Fin (4084101 / 38720)],
      terminal_fcf_year = Fin (5435938431 / 32000000),
      shares_end_year = Fin 1000\<rparr>"


section \<open>Float arithmetic on finite values\<close>

lemma fl_sub_Fin [simp]: "fl_sub (Fin a) (Fin b) = Fin (a - b)"
  by (simp add: fl_sub_def)

lemma np_minimum_Fin [simp]: "np_minimum (Fin a) (Fin b) = Fin (min a b)"
  by (simp add: np_minimum_def min_def)

lemma np_maximum_Fin [simp]: "np_maximum (Fin a) (Fin b) = Fin (max a b)"
  by (simp add: np_maximum_def max_def)

lemma np_clip_Fin [simp]: "np_clip (Fin a) (Fin lo) (Fin hi) = Fin (min (max a lo) hi)"
  by (simp add: np_clip_def)

lemma fl_pow_Fin [simp]: "fl_pow (Fin a) n = Fin (a ^ n)"
  by (induction n) simp_all

lemma np_power_Fin: "0 \<le> k \<Longrightarrow> np_power (Fin a) k = Fin (a ^ nat k)"
  by (simp add: np_power_def)

section \<open>Base FCF selection\<close>

lemma fl_less_irrefl [simp]: "\<not> fl_less x x"
  by (cases x) simp_all

lemma fl_le_trans: "fl_le x y \<Longrightarrow> fl_le y z \<Longrightarrow> fl_le x z"
  by (cases x; cases y; cases z) auto

lemma fl_less_NaN_right [simp]: "\<not> fl_less x NaN"
  by (cases x) simp_all

lemma fl_le_refl: "x \<noteq> NaN \<Longrightarrow> fl_le x x"
  by (cases x) simp_all

lemma py_max_fold_ge:
  "m \<noteq> NaN \<Longrightarrow> fl_le m (foldl (\<lambda>m x. if fl_less m x then x else m) m xs)"
proof (induction xs arbitrary: m)
  case Nil
  then show ?case by (simp add: fl_le_refl)
next
  case (Cons x xs)
  show ?case
  proof (cases "fl_less m x")
    case True
    then have "x \<noteq> NaN" by auto
    from Cons.IH [OF this] have "fl_le x (foldl (\<lambda>m x. if fl_less m x then x else m) x xs)" .
    moreover from True have "fl_le m x" by (cases m; cases x) auto
    ultimately show ?thesis using True by (auto intro: fl_le_trans)
  next
    case False
    with Cons show ?thesis by simp
  qed
qed

lemma py_max_fold_mem:
  "foldl (\<lambda>m x. if fl_less m x then x else m) m xs \<in> insert m (set xs)"
  by (induction xs arbitrary: m) auto

lemma py_max_fold_upper:
  "m \<noteq> NaN \<Longrightarrow> \<forall>x\<in>set xs. x \<noteq> NaN \<Longrightarrow> y \<in> set xs \<Longrightarrow>
   fl_le y (foldl (\<lambda>m x. if fl_less m x then x else m) m xs)"
proof (induction xs arbitrary: m)
  case Nil
  then show ?case by simp
next
  case (Cons x xs)
  let ?m' = "if fl_less m x then x else m"
  have m': "?m' \<noteq> NaN" using Cons.prems by auto
  show ?case
  proof (cases "y = x")
    case True
    have "fl_le x ?m'" using Cons.prems(1,2) by (cases m; cases x) auto
    moreover have "fl_le ?m' (foldl (\<lambda>m x. if fl_less m x then x else m) ?m' xs)"
      using m' by (rule py_max_fold_ge)
    ultimately show ?thesis using True by (auto intro: fl_le_trans)
  next
    case False
    with Cons.prems have "y \<in> set xs" by simp
    with Cons.IH [OF m'] Cons.prems(2) show ?thesis by simp
  qed
qed

lemma py_max_mem: "xs \<noteq> [] \<Longrightarrow> py_max xs \<in> set xs"
  unfolding py_max_def using py_max_fold_mem [of "hd xs" "tl xs"]
  by (cases xs) auto

lemma py_max_upper:
  assumes "\<forall>x\<in>set xs. x \<noteq> NaN" and "y \<in> set xs"
  shows "fl_le y (py_max xs)"
proof (cases xs)
  case Nil
  with assms show ?thesis by simp
next
  case (Cons a as)
  show ?thesis
  proof (cases "y = a")
    case True
    then show ?thesis
      unfolding py_max_def Cons using assms(1) Cons py_max_fold_ge [of a as] by simp
  next
    case False
    then show ?thesis
      unfolding py_max_def Cons using assms Cons py_max_fold_upper [of a as y] by simp
  qed
qed

text \<open>
  C7. The selected base FCF is exactly 1,000,000,000 for an empty history; otherwise the
  last element when it is positive; otherwise the maximum of the positive values of the
  history (a member of the history that is positive and that no positive member exceeds);
  otherwise, when the history has no positive value, 1,000,000,000.
\<close>

theorem pick_base_fcf_selection:
  "pick_base_fcf [] = Fin 1000000000
   \<and> (h \<noteq> [] \<and> fl_less (Fin 0) (last h) \<longrightarrow> pick_base_fcf h = last h)
   \<and> (h \<noteq> [] \<and> \<not> fl_less (Fin 0) (last h) \<and> (\<exists>x\<in>set h. fl_less (Fin 0) x) \<longrightarrow>
        pick_base_fcf h \<in> set h \<and> fl_less (Fin 0) (pick_base_fcf h)
        \<and> (\<forall>x\<in>set h. fl_less (Fin 0) x \<longrightarrow> fl_le x (pick_base_fcf h)))
   \<and> (h \<noteq> [] \<and> \<not> fl_less (Fin 0) (last h) \<and> \<not> (\<exists>x\<in>set h. fl_less (Fin 0) x) \<longrightarrow>
        pick_base_fcf h = Fin 1000000000)"
proof -
  let ?ps = "filter (\<lambda>x. fl_less (Fin 0) x) h"
  have nn: "\<forall>x\<in>set ?ps. x \<noteq> NaN" by auto
  have c3: "pick_base_fcf h \<in> set h \<and> fl_less (Fin 0) (pick_base_fcf h)
        \<and> (\<forall>x\<in>set h. fl_less (Fin 0) x \<longrightarrow> fl_le x (pick_base_fcf h))"
    if h: "h \<noteq> []" "\<not> fl_less (Fin 0) (last h)" and ex: "\<exists>x\<in>set h. fl_less (Fin 0) x"
  proof -
    from ex have ne: "?ps \<noteq> []" by (auto simp: filter_empty_conv)
    then have eq: "pick_base_fcf h = py_max ?ps"
      using h by (simp add: pick_base_fcf_def Let_def)
    from py_max_mem [OF ne] have mem: "py_max ?ps \<in> set ?ps" .
    have "\<forall>x\<in>set h. fl_less (Fin 0) x \<longrightarrow> fl_le x (py_max ?ps)"
      using py_max_upper [OF nn] by simp
    with mem eq show ?thesis by simp
  qed
  have c4: "pick_base_fcf h = Fin 1000000000"
    if "h \<noteq> []" "\<not> fl_less (Fin 0) (last h)" "\<not> (\<exists>x\<in>set h. fl_less (Fin 0) x)"
  proof -
    from that(3) have "?ps = []" by (auto simp: filter_empty_conv)
    with that show ?thesis by (simp add: pick_base_fcf_def Let_def)
  qed
  show ?thesis using c3 c4 by (simp add: pick_base_fcf_def Let_def)
qed

theorem pick_base_fcf_selection_witness:
  "pick_base_fcf [Fin 1, Fin 2] = last [Fin 1, Fin 2]
   \<and> pick_base_fcf [Fin 5, Fin 3, Fin (- 2)] \<in> set [Fin 5, Fin 3, Fin (- 2)]
   \<and> fl_less (Fin 0) (pick_base_fcf [Fin 5, Fin 3, Fin (- 2)])
   \<and> fl_le (Fin 5) (pick_base_fcf [Fin 5, Fin 3, Fin (- 2)])
   \<and> pick_base_fcf [Fin 3, NaN, Fin (- 1)] = Fin 3
   \<and> pick_base_fcf [Fin (- 1), Fin 0] = Fin 1000000000"
  using pick_base_fcf_selection [of "[Fin 1, Fin 2]"]
    pick_base_fcf_selection [of "[Fin 5, Fin 3, Fin (- 2)]"]
    pick_base_fcf_selection [of "[Fin 3, NaN, Fin (- 1)]"]
    pick_base_fcf_selection [of "[Fin (- 1), Fin 0]"]
  by (simp add: pick_base_fcf_def py_max_def)

section \<open>Random draws and trials\<close>

lemma draw_n_length [simp]: "length (fst (draw_n f n s)) = n"
  by (induction n arbitrary: s) (simp_all add: case_prod_beta)

lemma random_rand_length [simp]: "length (fst (random_rand rng n s)) = n"
  by (simp add: random_rand_def case_prod_beta)

lemma random_normal_length [simp]: "length (fst (random_normal rng loc sc n s)) = n"
  by (simp add: random_normal_def case_prod_beta)

lemma random_standard_t_length [simp]: "length (fst (random_standard_t rng df n s)) = n"
  by (simp add: random_standard_t_def case_prod_beta)



lemma mc_sample_lengths:
  "length (d_recession (fst (mc_sample rng bf bg bw bt n rp s))) = n
   \<and> length (d_g (fst (mc_sample rng bf bg bw bt n rp s))) = n
   \<and> length (d_w (fst (mc_sample rng bf bg bw bt n rp s))) = n
   \<and> length (d_tg (fst (mc_sample rng bf bg bw bt n rp s))) = n
   \<and> length (d_base_draw (fst (mc_sample rng bf bg bw bt n rp s))) = n"
  by (simp add: mc_sample_def case_prod_beta Let_def)








section \<open>Outcome of the Monte Carlo run\<close>

lemma bind_err_simps [simp]:
  "bind_err (Inl e) f = Inl e" "bind_err (Inr x) f = f x"
  by (simp_all add: bind_err_def)

lemma np_index_in_range [simp]: "i < length xs \<Longrightarrow> np_index xs i = Inr (xs ! i)"
  by (simp add: np_index_def)

lemma mc_sample_sized: "draws_sized (fst (mc_sample rng bf bg bw bt n rp s)) n"
  using mc_sample_lengths [of rng bf bg bw bt n rp s] by (simp add: draws_sized_def)

lemma scenario_at_scalar:
  assumes "draws_sized d n" "length ev = n" "i < n"
  shows "scenario_at d ev (Scalar x) i = Inl TypeError"
  using assms by (simp add: scenario_at_def draws_sized_def values_index_def)

lemma scenario_at_array:
  assumes "draws_sized d n" "length ev = n" "length ps = n" "i < n"
  shows "\<exists>sc. scenario_at d ev (Arr ps) i = Inr sc"
  using assms by (simp add: scenario_at_def draws_sized_def values_index_def)

lemma scenario_details_scalar:
  assumes "draws_sized d n" "length ev = n" "idx \<noteq> []" "\<forall>i\<in>set idx. i < n"
  shows "scenario_details d ev (Scalar x) idx = Inl TypeError"
  using assms by (cases idx) (simp_all add: scenario_at_scalar)

lemma scenario_details_array:
  assumes "draws_sized d n" "length ev = n" "length ps = n" "\<forall>i\<in>set idx. i < n"
  shows "\<exists>details. scenario_details d ev (Arr ps) idx = Inr details
           \<and> length details = length idx"
  using assms(4)
proof (induction idx)
  case Nil
  then show ?case by simp
next
  case (Cons i idx)
  then have "i < n" by simp
  from scenario_at_array [OF assms(1-3) this] obtain sc
    where "scenario_at d ev (Arr ps) i = Inr sc" by blast
  moreover from Cons obtain details
    where "scenario_details d ev (Arr ps) idx = Inr details" "length details = length idx"
    by auto
  ultimately show ?case by simp
qed

lemma choice_okD:
  assumes "choice_ok rng" "k \<le> n"
  shows "length (fst (rng_choice rng n k s)) = k"
    and "\<forall>i\<in>set (fst (rng_choice rng n k s)). i < n"
  using assms unfolding choice_ok_def by blast+

lemma mc_ev_length:
  "draws_sized d n \<Longrightarrow>
   length (map (\<lambda>(bd, g, w, tg). trial_ev yrs bd g w tg)
             (zip (d_base_draw d) (zip (d_g d) (zip (d_w d) (d_tg d))))) = n"
  by (simp add: draws_sized_def)

text \<open>The Monte Carlo run when the projected share count is not positive.\<close>

lemma monte_carlo_scalar_raises:
  assumes ok: "choice_ok rng" and n: "1 \<le> n_runs" and y: "1 \<le> yrs"
    and sh: "\<not> fl_less (Fin 0) (shares_path shares chg yrs)"
  shows "fst (monte_carlo_vectorized rng bf bg bw bt yrs shares chg b n_runs rp s)
           = Inl TypeError"
proof -
  let ?n = "nat n_runs"
  let ?ms = "mc_sample rng bf bg bw bt ?n rp s"
  let ?d = "fst ?ms"
  let ?ev = "map (\<lambda>(bd, g, w, tg). trial_ev yrs bd g w tg)
               (zip (d_base_draw ?d) (zip (d_g ?d) (zip (d_w ?d) (d_tg ?d))))"
  let ?idx = "fst (rng_choice rng ?n (min 25 ?n) (snd ?ms))"
  have sized: "draws_sized ?d ?n" by (rule mc_sample_sized)
  have ev: "length ?ev = ?n" using sized by (rule mc_ev_length)
  have "length ?idx = min 25 ?n" using ok by (rule choice_okD) simp
  with n have ne: "?idx \<noteq> []" by auto
  have rng: "\<forall>i\<in>set ?idx. i < ?n" using ok by (rule choice_okD) simp
  have d1: "scenario_details ?d ?ev (Scalar NaN) ?idx = Inl TypeError"
    using sized ev ne rng by (rule scenario_details_scalar)
  have eq: "fst (monte_carlo_vectorized rng bf bg bw bt yrs shares chg b n_runs rp s)
      = bind_err (scenario_details ?d ?ev (Scalar NaN) ?idx)
          (\<lambda>details. Inr (Scalar NaN, details))"
    using n y sh
    by (simp add: monte_carlo_vectorized_def Let_def case_prod_beta del: map_map)
  show ?thesis unfolding eq d1 by simp
qed

lemma monte_carlo_array_returns:
  assumes ok: "choice_ok rng" and n: "0 \<le> n_runs" and y: "1 \<le> yrs"
    and sh: "fl_less (Fin 0) (shares_path shares chg yrs)"
  shows "\<exists>vals details.
           fst (monte_carlo_vectorized rng bf bg bw bt yrs shares chg b n_runs rp s)
             = Inr (Arr vals, details)
           \<and> length vals = nat n_runs \<and> length details = min 25 (nat n_runs)"
proof -
  let ?n = "nat n_runs"
  let ?ms = "mc_sample rng bf bg bw bt ?n rp s"
  let ?d = "fst ?ms"
  let ?ev = "map (\<lambda>(bd, g, w, tg). trial_ev yrs bd g w tg)
               (zip (d_base_draw ?d) (zip (d_g ?d) (zip (d_w ?d) (d_tg ?d))))"
  let ?ps = "map (\<lambda>e. fl_div e (shares_path shares chg yrs)) (map (bridge_to_equity b) ?ev)"
  let ?idx = "fst (rng_choice rng ?n (min 25 ?n) (snd ?ms))"
  have sized: "draws_sized ?d ?n" by (rule mc_sample_sized)
  have ev: "length ?ev = ?n" using sized by (rule mc_ev_length)
  then have ps: "length ?ps = ?n" by simp
  have len: "length ?idx = min 25 ?n" using ok by (rule choice_okD) simp
  have rng: "\<forall>i\<in>set ?idx. i < ?n" using ok by (rule choice_okD) simp
  from scenario_details_array [OF sized ev ps rng] obtain details
    where d1: "scenario_details ?d ?ev (Arr ?ps) ?idx = Inr details"
      and d2: "length details = length ?idx" by blast
  have eq: "fst (monte_carlo_vectorized rng bf bg bw bt yrs shares chg b n_runs rp s)
      = bind_err (scenario_details ?d ?ev (Arr ?ps) ?idx) (\<lambda>details. Inr (Arr ?ps, details))"
    using n y sh
    by (simp add: monte_carlo_vectorized_def Let_def case_prod_beta del: map_map)
  have "fst (monte_carlo_vectorized rng bf bg bw bt yrs shares chg b n_runs rp s)
      = Inr (Arr ?ps, details)"
    unfolding eq d1 by simp
  moreover have "length details = min 25 ?n" using d2 len by simp
  ultimately show ?thesis using ps by blast
qed


section \<open>Validation and the entry point\<close>

lemma to_nominal_Fin:
  "to_nominal a x =
     Fin (if arg_real_mode a then (1 + x) * (1 + arg_inflation a) - 1 else x)"
  by (simp add: to_nominal_def)

lemma terminal_value_returns: "\<exists>v. terminal_value x (Fin w) (Fin t) = Inr v"
  by (auto simp: terminal_value_def py_div_def py_min_def Let_def)

lemma project_fcf_nonempty: "1 \<le> yrs \<Longrightarrow> project_fcf b g yrs \<noteq> []"
  by (simp add: project_fcf_def)

lemma base_case_returns:
  assumes "1 \<le> yrs"
  shows "\<exists>base. base_case_breakdown bf g (Fin w) (Fin t) yrs sh chg b = Inr base"
proof -
  obtain v where "terminal_value (last (project_fcf bf g yrs)) (Fin w) (Fin t) = Inr v"
    using terminal_value_returns by blast
  then show ?thesis
    using project_fcf_nonempty [OF assms, of bf g]
    by (simp add: base_case_breakdown_def Let_def)
qed

lemma validate_inputs_accepts_iff:
  "validate_inputs (Fin w) (Fin t) y = Inr () \<longleftrightarrow> 3 \<le> y \<and> y \<le> 10 \<and> t < w \<and> 0 \<le> t"
  by (auto simp: validate_inputs_def)

lemma validate_inputs_cases:
  "validate_inputs w t y = Inr () \<or> is_validation_error (validate_inputs w t y)"
  by (simp add: validate_inputs_def is_validation_error_def)

lemma calculate_rejected:
  assumes "validate_inputs (Fin (arg_wacc a)) (Fin (arg_terminal_growth a)) (arg_years a) = Inl e"
  shows "calculate_dcf_valuation rng a s = (Inl e, s)"
  using assms by (simp add: calculate_dcf_valuation_def)

lemma scenario_at_errors:
  "scenario_at d ev ps i = Inl e \<Longrightarrow> e = IndexError \<or> e = TypeError"
  by (auto simp: scenario_at_def bind_err_def np_index_def values_index_def
      split: sum.splits if_splits mc_values.splits)

lemma scenario_details_errors:
  "scenario_details d ev ps idx = Inl e \<Longrightarrow> e = IndexError \<or> e = TypeError"
proof (induction idx arbitrary: e)
  case Nil
  then show ?case by simp
next
  case (Cons i idx)
  then show ?case
    by (auto simp: bind_err_def split: sum.splits dest: scenario_at_errors)
qed

lemma monte_carlo_errors:
  assumes "fst (monte_carlo_vectorized rng bf bg bw bt yrs shares chg b n_runs rp s) = Inl e"
  shows "e = ValueError ''negative dimensions are not allowed'' \<or> e = IndexError
         \<or> e = TypeError"
  using assms
  by (auto simp: monte_carlo_vectorized_def Let_def case_prod_beta bind_err_def
      split: if_splits sum.splits dest: scenario_details_errors)

lemma summarize_mc_errors: "summarize_mc v = Inl e \<Longrightarrow> e = AttributeError"
  by (auto simp: summarize_mc_def Let_def split: mc_values.splits if_splits)

lemma calculate_accepted_error:
  assumes v: "validate_inputs (Fin (arg_wacc a)) (Fin (arg_terminal_growth a)) (arg_years a) = Inr ()"
    and mc: "fst (mc_call rng a s) = Inl e"
  shows "fst (calculate_dcf_valuation rng a s) = Inl e"
proof -
  from v have y: "1 \<le> arg_years a" by (simp add: validate_inputs_accepts_iff)
  obtain base where "base_case_breakdown (resolved_base_fcf a)
      (to_nominal a (arg_fcf_growth_rate a)) (to_nominal a (arg_wacc a))
      (to_nominal a (arg_terminal_growth a)) (arg_years a) (Fin (arg_shares_outstanding a))
      (Fin (arg_annual_share_change a))
      (case arg_bridge a of None \<Rightarrow> default_bridge | Some b \<Rightarrow> b) = Inr base"
    using base_case_returns [OF y] unfolding to_nominal_Fin by blast
  then show ?thesis
    using v mc
    by (simp add: calculate_dcf_valuation_def mc_call_def Let_def case_prod_beta)
qed

lemma calculate_accepted_errors:
  assumes v: "validate_inputs (Fin (arg_wacc a)) (Fin (arg_terminal_growth a)) (arg_years a) = Inr ()"
    and e: "fst (calculate_dcf_valuation rng a s) = Inl e"
  shows "e = ValueError ''negative dimensions are not allowed'' \<or> e = IndexError
         \<or> e = TypeError \<or> e = AttributeError"
proof -
  from v have y: "1 \<le> arg_years a" by (simp add: validate_inputs_accepts_iff)
  obtain base where "base_case_breakdown (resolved_base_fcf a)
      (to_nominal a (arg_fcf_growth_rate a)) (to_nominal a (arg_wacc a))
      (to_nominal a (arg_terminal_growth a)) (arg_years a) (Fin (arg_shares_outstanding a))
      (Fin (arg_annual_share_change a))
      (case arg_bridge a of None \<Rightarrow> default_bridge | Some b \<Rightarrow> b) = Inr base"
    using base_case_returns [OF y] unfolding to_nominal_Fin by blast
  then show ?thesis
    using v e
    by (auto simp: calculate_dcf_valuation_def Let_def case_prod_beta
        split: sum.splits dest: monte_carlo_errors summarize_mc_errors)
qed

lemma choice_ok_counter_rng: "choice_ok counter_rng"
  by (auto simp: choice_ok_def counter_rng_def)








text \<open>
  An accepted call with at least one run whose projected share count is not positive
  fails with TypeError: the per-share result is then the float \<open>np.nan\<close>, which the
  detail-sampling loop subscripts.
\<close>

lemma calculate_nonpositive_shares_raises:
  assumes "validate_inputs (Fin (arg_wacc a)) (Fin (arg_terminal_growth a)) (arg_years a)
             = Inr ()"
    and "choice_ok rng" and "1 \<le> arg_monte_carlo_runs a"
    and "\<not> fl_less (Fin 0)
           (shares_path (Fin (arg_shares_outstanding a)) (Fin (arg_annual_share_change a))
              (arg_years a))"
  shows "fst (calculate_dcf_valuation rng a s) = Inl TypeError"
proof (rule calculate_accepted_error [OF assms(1)])
  from assms(1) have "1 \<le> arg_years a" by (simp add: validate_inputs_accepts_iff)
  with assms(2,3) show "fst (mc_call rng a s) = Inl TypeError"
    unfolding mc_call_def using assms(4) by (intro monte_carlo_scalar_raises)
qed

text \<open>
  C1. A call that validation accepts, with one Monte Carlo run or more, whose projected
  end-of-horizon share count is zero: the engine raises TypeError instead of returning
  per-share valuations.
\<close>

theorem zero_shares_call_raises:
  "fst (calculate_dcf_valuation counter_rng
          ((default_args [100] (5 / 100))\<lparr>arg_shares_outstanding := 0\<rparr>) 0) = Inl TypeError"
  by (rule calculate_nonpositive_shares_raises)
     (simp_all add: default_args_def validate_inputs_def choice_ok_counter_rng
        shares_path_def np_power_Fin)

text \<open>
  C3. The entry point raises one of the three validation errors exactly when the horizon
  is outside [3, 10], or WACC is at most terminal growth, or WACC or terminal growth is
  negative; when validation fails, the call returns that error with the generator state
  untouched, before any base-case or Monte Carlo computation.
\<close>

theorem validation_error_exactly_when:
  "(is_validation_error (fst (calculate_dcf_valuation rng a s)) \<longleftrightarrow>
      arg_years a < 3 \<or> 10 < arg_years a \<or> arg_wacc a \<le> arg_terminal_growth a
      \<or> arg_wacc a < 0 \<or> arg_terminal_growth a < 0)
   \<and> (\<forall>e. validate_inputs (Fin (arg_wacc a)) (Fin (arg_terminal_growth a)) (arg_years a)
             = Inl e \<longrightarrow> calculate_dcf_valuation rng a s = (Inl e, s))"
proof -
  let ?v = "validate_inputs (Fin (arg_wacc a)) (Fin (arg_terminal_growth a)) (arg_years a)"
  let ?bad = "arg_years a < 3 \<or> 10 < arg_years a \<or> arg_wacc a \<le> arg_terminal_growth a
      \<or> arg_wacc a < 0 \<or> arg_terminal_growth a < 0"
  have rejected: "calculate_dcf_valuation rng a s = (Inl e, s)" if "?v = Inl e" for e
    using that by (rule calculate_rejected)
  have "is_validation_error (fst (calculate_dcf_valuation rng a s)) \<longleftrightarrow> ?bad"
  proof (cases "?v = Inr ()")
    case True
    then have ok: "\<not> ?bad" by (auto simp: validate_inputs_accepts_iff)
    have "\<not> is_validation_error (fst (calculate_dcf_valuation rng a s))"
    proof
      assume "is_validation_error (fst (calculate_dcf_valuation rng a s))"
      then obtain e where e: "fst (calculate_dcf_valuation rng a s) = Inl e"
        and v: "is_validation_error (Inl e :: py_error + dcf_results)"
        by (auto simp: is_validation_error_def)
      from calculate_accepted_errors [OF True e] v show False
        by (auto simp: is_validation_error_def)
    qed
    with ok show ?thesis by simp
  next
    case False
    then have bad: ?bad by (auto simp: validate_inputs_accepts_iff)
    from False validate_inputs_cases [of "Fin (arg_wacc a)" "Fin (arg_terminal_growth a)"
        "arg_years a"]
    have ve: "is_validation_error ?v" by simp
    then obtain e where e: "?v = Inl e" by (auto simp: is_validation_error_def)
    with ve rejected [OF e] bad show ?thesis by (simp add: is_validation_error_def)
  qed
  with rejected show ?thesis by blast
qed

theorem validation_error_exactly_when_witness:
  "calculate_dcf_valuation counter_rng ((default_args [100] (5 / 100))\<lparr>arg_years := 2\<rparr>) 7
     = (Inl (ValueError ''years must be between 3 and 10''), 7)
   \<and> calculate_dcf_valuation counter_rng ((default_args [100] (5 / 100))\<lparr>arg_years := 11\<rparr>) 7
     = (Inl (ValueError ''years must be between 3 and 10''), 7)
   \<and> calculate_dcf_valuation counter_rng
       ((default_args [100] (5 / 100))\<lparr>arg_terminal_growth := 10 / 100\<rparr>) 7
     = (Inl (ValueError ''WACC must be strictly greater than terminal growth''), 7)
   \<and> \<not> is_validation_error (fst (calculate_dcf_valuation counter_rng
       ((default_args [100] (5 / 100))\<lparr>arg_years := 3\<rparr>) 7))
   \<and> \<not> is_validation_error (fst (calculate_dcf_valuation counter_rng
       ((default_args [100] (5 / 100))\<lparr>arg_years := 10\<rparr>) 7))"
  using validation_error_exactly_when
      [of counter_rng "(default_args [100] (5 / 100))\<lparr>arg_years := 2\<rparr>" 7]
    validation_error_exactly_when
      [of counter_rng "(default_args [100] (5 / 100))\<lparr>arg_years := 11\<rparr>" 7]
    validation_error_exactly_when
      [of counter_rng "(default_args [100] (5 / 100))\<lparr>arg_terminal_growth := 10 / 100\<rparr>" 7]
    validation_error_exactly_when
      [of counter_rng "(default_args [100] (5 / 100))\<lparr>arg_years := 3\<rparr>" 7]
    validation_error_exactly_when
      [of counter_rng "(default_args [100] (5 / 100))\<lparr>arg_years := 10\<rparr>" 7]
  by (simp add: default_args_def validate_inputs_def)

section \<open>Scenario A\<close>

lemma sa_base: "resolved_base_fcf scenario_a = Fin (1331 / 10)"
  by (simp add: resolved_base_fcf_def scenario_a_def default_args_def pick_base_fcf_def)

lemma upto_1_5: "[1..(5::int)] = [1, 2, 3, 4, 5]"
  by code_simp

lemma scenario_a_base_case:
  "base_case_breakdown (Fin (1331 / 10)) (Fin (5 / 100)) (Fin (10 / 100)) (Fin (3 / 100)) 5
     (Fin 1000) (Fin 0) default_bridge =
   Inr \<lparr>enterprise_value = Fin (375249 / 176),
        equity_value = Fin (375249 / 176),
        equity_value_per_share = Fin (375249 / 176000),
        pv_explicit_period = Fin (22460151 / 38720),
        pv_terminal_value = Fin (60094629 / 38720),
        terminal_value_gordon = Fin (79985951199 / 32000000),
        terminal_value_share_of_ev = Fin (2861649 / 3931180),
        fcf_projections =
          [Fin (27951 / 200), Fin (586971 / 4000), Fin (12326391 / 80000),
           Fin (258854211 / 1600000), Fin (5435938431 / 32000000)],
        pv_fcf_projections =
          [Fin (2541 / 20), Fin (4851 / 40), Fin (9261 / 80),
           Fin (194481 / 1760), Fin (4084101 / 38720)],
        terminal_fcf_year = Fin (5435938431 / 32000000),
        shares_end_year = Fin 1000\<rparr>"
  by (simp add: base_case_breakdown_def project_fcf_def pv_series_def terminal_value_def
      py_div_def shares_path_def np_sum_def bridge_to_equity_def default_bridge_def
      np_power_Fin upto_1_5 Let_def power_divide)


lemma summarize_mc_array_returns: "\<exists>summary. summarize_mc (Arr xs) = Inr summary"
  by (simp add: summarize_mc_def Let_def)

lemma calculate_returns:
  assumes v: "validate_inputs (Fin (arg_wacc a)) (Fin (arg_terminal_growth a)) (arg_years a)
                = Inr ()"
    and ok: "choice_ok rng"
    and n: "0 \<le> arg_monte_carlo_runs a"
    and sh: "fl_less (Fin 0)
               (shares_path (Fin (arg_shares_outstanding a)) (Fin (arg_annual_share_change a))
                  (arg_years a))"
  shows "\<exists>r. fst (calculate_dcf_valuation rng a s) = Inr r
           \<and> base_case_breakdown (resolved_base_fcf a) (to_nominal a (arg_fcf_growth_rate a))
               (to_nominal a (arg_wacc a)) (to_nominal a (arg_terminal_growth a))
               (arg_years a) (Fin (arg_shares_outstanding a))
               (Fin (arg_annual_share_change a))
               (case arg_bridge a of None \<Rightarrow> default_bridge | Some b \<Rightarrow> b)
             = Inr (res_base_case r)"
proof -
  from v have y: "1 \<le> arg_years a" by (simp add: validate_inputs_accepts_iff)
  obtain base where base: "base_case_breakdown (resolved_base_fcf a)
      (to_nominal a (arg_fcf_growth_rate a)) (to_nominal a (arg_wacc a))
      (to_nominal a (arg_terminal_growth a)) (arg_years a) (Fin (arg_shares_outstanding a))
      (Fin (arg_annual_share_change a))
      (case arg_bridge a of None \<Rightarrow> default_bridge | Some b \<Rightarrow> b) = Inr base"
    using base_case_returns [OF y] unfolding to_nominal_Fin by blast
  have "\<exists>vals details. fst (mc_call rng a s) = Inr (Arr vals, details)
      \<and> length vals = nat (arg_monte_carlo_runs a)
      \<and> length details = min 25 (nat (arg_monte_carlo_runs a))"
    unfolding mc_call_def using ok n y sh by (rule monte_carlo_array_returns)
  then obtain vals details where mc: "fst (mc_call rng a s) = Inr (Arr vals, details)"
    by blast
  obtain summary where "summarize_mc (Arr vals) = Inr summary"
    using summarize_mc_array_returns by blast
  with v base mc show ?thesis
    by (simp add: calculate_dcf_valuation_def mc_call_def Let_def case_prod_beta)
qed

lemma calculate_result_fields:
  assumes "fst (calculate_dcf_valuation rng a s) = Inr r"
  shows "asm_base_fcf (res_assumptions r) = resolved_base_fcf a
     \<and> res_diagnostics r = diagnostics (res_base_case r) (to_nominal a (arg_wacc a))
         (to_nominal a (arg_terminal_growth a)) (arg_years a)"
  using assms
  by (auto simp: calculate_dcf_valuation_def Let_def case_prod_beta
      split: sum.splits)

text \<open>
  C4. Scenario A (FCF history 100, 110, 121, 133.1; growth 0.05; WACC 0.10; terminal growth
  0.03; 1000 shares; 5 years; no bridge adjustments): the call returns, the base FCF is
  133.1, and the base case has PV(explicit) within 0.5% of 580.12, Gordon terminal value
  within 0.5% of 2499.56, PV(terminal) within 0.5% of 1552.35, enterprise value within 0.5%
  of 2132.47 and equity value per share within 0.5% of 2.13.
\<close>

theorem scenario_a_base_case_values:
  assumes "choice_ok rng"
  shows "\<exists>r. fst (calculate_dcf_valuation rng scenario_a s) = Inr r
     \<and> asm_base_fcf (res_assumptions r) = Fin (1331 / 10)
     \<and> within_tolerance (5 / 1000) (58012 / 100) (pv_explicit_period (res_base_case r))
     \<and> within_tolerance (5 / 1000) (249956 / 100) (terminal_value_gordon (res_base_case r))
     \<and> within_tolerance (5 / 1000) (155235 / 100) (pv_terminal_value (res_base_case r))
     \<and> within_tolerance (5 / 1000) (213247 / 100) (enterprise_value (res_base_case r))
     \<and> within_tolerance (5 / 1000) (213 / 100) (equity_value_per_share (res_base_case r))"
proof -
  have "\<exists>r. fst (calculate_dcf_valuation rng scenario_a s) = Inr r
      \<and> base_case_breakdown (resolved_base_fcf scenario_a)
          (to_nominal scenario_a (arg_fcf_growth_rate scenario_a))
          (to_nominal scenario_a (arg_wacc scenario_a))
          (to_nominal scenario_a (arg_terminal_growth scenario_a))
          (arg_years scenario_a) (Fin (arg_shares_outstanding scenario_a))
          (Fin (arg_annual_share_change scenario_a))
          (case arg_bridge scenario_a of None \<Rightarrow> default_bridge | Some b \<Rightarrow> b)
        = Inr (res_base_case r)"
    using assms
    by (intro calculate_returns)
       (simp_all add: scenario_a_def default_args_def validate_inputs_def shares_path_def
          np_power_Fin)
  then obtain r where r: "fst (calculate_dcf_valuation rng scenario_a s) = Inr r"
    and "base_case_breakdown (resolved_base_fcf scenario_a)
          (to_nominal scenario_a (arg_fcf_growth_rate scenario_a))
          (to_nominal scenario_a (arg_wacc scenario_a))
          (to_nominal scenario_a (arg_terminal_growth scenario_a))
          (arg_years scenario_a) (Fin (arg_shares_outstanding scenario_a))
          (Fin (arg_annual_share_change scenario_a))
          (case arg_bridge scenario_a of None \<Rightarrow> default_bridge | Some b \<Rightarrow> b)
        = Inr (res_base_case r)"
    by blast
  then have "base_case_breakdown (Fin (1331 / 10)) (Fin (5 / 100)) (Fin (10 / 100))
      (Fin (3 / 100)) 5 (Fin 1000) (Fin 0) default_bridge = Inr (res_base_case r)"
    unfolding sa_base by (simp add: scenario_a_def default_args_def to_nominal_def)
  then have b: "res_base_case r =
     \<lparr>enterprise_value = Fin (375249 / 176),
        equity_value = Fin (375249 / 176),
        equity_value_per_share = Fin (375249 / 176000),
        pv_explicit_period = Fin (22460151 / 38720),
        pv_terminal_value = Fin (60094629 / 38720),
        terminal_value_gordon = Fin (79985951199 / 32000000),
        terminal_value_share_of_ev = Fin (2861649 / 3931180),
        fcf_projections =
          [Fin (27951 / 200), Fin (586971 / 4000), Fin (12326391 / 80000),
           Fin (258854211 / 1600000), Fin (5435938431 / 32000000)],
        pv_fcf_projections =
          [Fin (2541 / 20), Fin (4851 / 40), Fin (9261 / 80),
           Fin (194481 / 1760), Fin (4084101 / 38720)],
        terminal_fcf_year = Fin (5435938431 / 32000000),
        shares_end_year = Fin 1000\<rparr>"
    unfolding scenario_a_base_case by simp
  have "asm_base_fcf (res_assumptions r) = Fin (1331 / 10)"
    using calculate_result_fields [OF r] sa_base by simp
  with r show ?thesis
    by (intro exI [of _ r]) (simp add: b within_tolerance_def)
qed

theorem scenario_a_base_case_values_witness:
  "\<exists>r. fst (calculate_dcf_valuation counter_rng scenario_a 0) = Inr r
     \<and> asm_base_fcf (res_assumptions r) = Fin (1331 / 10)
     \<and> within_tolerance (5 / 1000) (58012 / 100) (pv_explicit_period (res_base_case r))
     \<and> within_tolerance (5 / 1000) (249956 / 100) (terminal_value_gordon (res_base_case r))
     \<and> within_tolerance (5 / 1000) (155235 / 100) (pv_terminal_value (res_base_case r))
     \<and> within_tolerance (5 / 1000) (213247 / 100) (enterprise_value (res_base_case r))
     \<and> within_tolerance (5 / 1000) (213 / 100) (equity_value_per_share (res_base_case r))"
  using scenario_a_base_case_values [OF choice_ok_counter_rng, of 0] .

section \<open>Stock-compensation adjustment\<close>

lemma pick_base_fcf_mem: "pick_base_fcf h \<in> insert (Fin 1000000000) (set h)"
proof (cases "filter (\<lambda>x. fl_less (Fin 0) x) h = []")
  case True
  then show ?thesis by (simp add: pick_base_fcf_def Let_def)
next
  case False
  from py_max_mem [OF this] have "py_max (filter (\<lambda>x. fl_less (Fin 0) x) h) \<in> set h" by simp
  then show ?thesis by (simp add: pick_base_fcf_def Let_def)
qed

lemma pick_base_fcf_positive: "fl_less (Fin 0) (pick_base_fcf h)"
proof (cases "filter (\<lambda>x. fl_less (Fin 0) x) h = []")
  case True
  then show ?thesis by (simp add: pick_base_fcf_def Let_def)
next
  case False
  from py_max_mem [OF this] have "fl_less (Fin 0) (py_max (filter (\<lambda>x. fl_less (Fin 0) x) h))"
    by simp
  then show ?thesis by (simp add: pick_base_fcf_def Let_def)
qed

lemma pick_base_fcf_finite: "\<exists>b. pick_base_fcf (map Fin h) = Fin b \<and> 0 < b"
proof -
  from pick_base_fcf_mem [of "map Fin h"] obtain b where b: "pick_base_fcf (map Fin h) = Fin b"
    by auto
  with pick_base_fcf_positive [of "map Fin h"] show ?thesis by simp
qed

lemma resolved_base_fcf_positive_iff:
  "fl_less (Fin 0) (resolved_base_fcf a) \<longleftrightarrow>
     \<not> (arg_treat_sbc_as_cash_cost a \<and> 1 \<le> arg_sbc_percent_of_fcf a)"
proof -
  obtain b where b: "pick_base_fcf (map Fin (arg_fcf_history a)) = Fin b" "0 < b"
    using pick_base_fcf_finite by blast
  then show ?thesis
    by (auto simp: resolved_base_fcf_def Let_def zero_less_mult_iff)
qed

text \<open>
  C5, as the code has it. The base FCF echoed in the result's assumptions is the selected
  historical base FCF, multiplied by (1 - percentage) when the stock-compensation
  adjustment is enabled with a positive percentage. It is strictly positive exactly when
  the adjustment is disabled or the percentage is below 1. A call that validation accepts
  returns such a result when its run count is not negative and its projected share count
  is positive.
\<close>

theorem echoed_base_fcf_positive_iff:
  "(\<forall>r. fst (calculate_dcf_valuation rng a s) = Inr r \<longrightarrow>
        asm_base_fcf (res_assumptions r) = resolved_base_fcf a
        \<and> (fl_less (Fin 0) (asm_base_fcf (res_assumptions r)) \<longleftrightarrow>
             \<not> (arg_treat_sbc_as_cash_cost a \<and> 1 \<le> arg_sbc_percent_of_fcf a)))
   \<and> (validate_inputs (Fin (arg_wacc a)) (Fin (arg_terminal_growth a)) (arg_years a) = Inr ()
        \<and> choice_ok rng \<and> 0 \<le> arg_monte_carlo_runs a
        \<and> fl_less (Fin 0)
             (shares_path (Fin (arg_shares_outstanding a)) (Fin (arg_annual_share_change a))
                (arg_years a))
      \<longrightarrow> (\<exists>r. fst (calculate_dcf_valuation rng a s) = Inr r))"
proof (intro conjI allI impI)
  fix r assume r: "fst (calculate_dcf_valuation rng a s) = Inr r"
  from calculate_result_fields [OF r]
  show e: "asm_base_fcf (res_assumptions r) = resolved_base_fcf a" by simp
  show "fl_less (Fin 0) (asm_base_fcf (res_assumptions r)) \<longleftrightarrow>
      \<not> (arg_treat_sbc_as_cash_cost a \<and> 1 \<le> arg_sbc_percent_of_fcf a)"
    unfolding e by (rule resolved_base_fcf_positive_iff)
next
  assume "validate_inputs (Fin (arg_wacc a)) (Fin (arg_terminal_growth a)) (arg_years a) = Inr ()
        \<and> choice_ok rng \<and> 0 \<le> arg_monte_carlo_runs a
        \<and> fl_less (Fin 0)
             (shares_path (Fin (arg_shares_outstanding a)) (Fin (arg_annual_share_change a))
                (arg_years a))"
  then show "\<exists>r. fst (calculate_dcf_valuation rng a s) = Inr r"
    using calculate_returns [of a rng s] by blast
qed

theorem echoed_base_fcf_positive_iff_witness:
  "\<exists>r. fst (calculate_dcf_valuation counter_rng
            ((default_args [100] (5 / 100))\<lparr>arg_sbc_percent_of_fcf := 1 / 2\<rparr>) 0) = Inr r
     \<and> asm_base_fcf (res_assumptions r) = Fin 50
     \<and> fl_less (Fin 0) (asm_base_fcf (res_assumptions r))"
proof -
  let ?a = "(default_args [100] (5 / 100))\<lparr>arg_sbc_percent_of_fcf := 1 / 2\<rparr>"
  note t = echoed_base_fcf_positive_iff [of counter_rng ?a 0]
  have "\<exists>r. fst (calculate_dcf_valuation counter_rng ?a 0) = Inr r"
    using t choice_ok_counter_rng
    by (simp add: default_args_def validate_inputs_def shares_path_def np_power_Fin)
  then obtain r where r: "fst (calculate_dcf_valuation counter_rng ?a 0) = Inr r" by blast
  have "resolved_base_fcf ?a = Fin 50"
    by (simp add: resolved_base_fcf_def default_args_def pick_base_fcf_def)
  with t r show ?thesis by (intro exI [of _ r]) (simp add: default_args_def)
qed

text \<open>
  C5 as stated fails: with the adjustment enabled and a percentage of 150%, an accepted
  call returns a result whose echoed base FCF is negative.
\<close>

theorem echoed_base_fcf_negative_counterexample:
  "map_sum id (asm_base_fcf \<circ> res_assumptions)
     (fst (calculate_dcf_valuation counter_rng
        ((default_args [100] (5 / 100))\<lparr>arg_sbc_percent_of_fcf := 3 / 2\<rparr>) 0))
   = Inr (Fin (- 50))"
proof -
  let ?a = "(default_args [100] (5 / 100))\<lparr>arg_sbc_percent_of_fcf := 3 / 2\<rparr>"
  have "\<exists>r. fst (calculate_dcf_valuation counter_rng ?a 0) = Inr r
      \<and> base_case_breakdown (resolved_base_fcf ?a) (to_nominal ?a (arg_fcf_growth_rate ?a))
               (to_nominal ?a (arg_wacc ?a)) (to_nominal ?a (arg_terminal_growth ?a))
               (arg_years ?a) (Fin (arg_shares_outstanding ?a))
               (Fin (arg_annual_share_change ?a))
               (case arg_bridge ?a of None \<Rightarrow> default_bridge | Some b \<Rightarrow> b)
             = Inr (res_base_case r)"
    using choice_ok_counter_rng
    by (intro calculate_returns)
       (simp_all add: default_args_def validate_inputs_def shares_path_def np_power_Fin)
  then obtain r where r: "fst (calculate_dcf_valuation counter_rng ?a 0) = Inr r" by blast
  have "resolved_base_fcf ?a = Fin (- 50)"
    by (simp add: resolved_base_fcf_def default_args_def pick_base_fcf_def)
  with calculate_result_fields [OF r] show ?thesis unfolding r by simp
qed

section \<open>Cash-flow duration\<close>

lemma np_sum_fold_Fin: "foldl fl_add (Fin a) (map Fin xs) = Fin (a + sum_list xs)"
  by (induction xs arbitrary: a) (simp_all add: add.assoc)

lemma np_sum_Fin: "np_sum (map Fin xs) = Fin (sum_list xs)"
  by (simp add: np_sum_def np_sum_fold_Fin)

lemma finite_values_map_Fin [simp]: "finite_values (map Fin xs) = xs"
  by (induction xs) simp_all

lemma all_finite_map_Fin: "list_all isfinite xs \<Longrightarrow> map Fin (finite_values xs) = xs"
proof (induction xs)
  case Nil
  then show ?case by simp
next
  case (Cons x xs)
  then show ?case by (cases x) simp_all
qed

lemma list_all_isfinite_map_Fin [simp]: "list_all isfinite (map Fin xs)"
  by (induction xs) simp_all

lemma weighted_sum_divide:
  "sum_list (map (\<lambda>(t, p). real_of_int t * (p / c)) (zip ts ps))
     = sum_list (map (\<lambda>(t, p). real_of_int t * p) (zip ts ps)) / c"
  by (induction ts ps rule: list_induct2') (simp_all add: add_divide_distrib)

lemma weighted_sum_zero:
  "sum_list (map (\<lambda>(t, p). real_of_int t * 0) (zip ts ps)) = (0::real)"
  by (induction ts ps rule: list_induct2') simp_all

lemma duration_years_finite:
  assumes "ps \<noteq> []"
  shows "duration_years (map Fin ps) =
     (if 0 < sum_list ps
      then Fin (sum_list (map (\<lambda>(t, p). real_of_int t * p) (zip [1..int (length ps)] ps))
                / sum_list ps)
      else Fin 0)"
proof -
  have z: "zip [1..int (length ps)] (map g ps)
      = map (\<lambda>(t, p). (t, g p)) (zip [1..int (length ps)] ps)" for g :: "real \<Rightarrow> fl"
    by (simp add: zip_map2)
  have m: "map (\<lambda>(t, wt). fl_mul (Fin (real_of_int t)) wt)
             (map (\<lambda>(t, p). (t, Fin (f p))) (zip ts ps))
      = map Fin (map (\<lambda>(t, p). real_of_int t * f p) (zip ts ps))"
    for f :: "real \<Rightarrow> real" and ts ps
    by (simp add: case_prod_beta)
  show ?thesis
  proof (cases "0 < sum_list ps")
    case True
    then have "duration_years (map Fin ps) =
        np_sum (map (\<lambda>(t, wt). fl_mul (Fin (real_of_int t)) wt)
             (map (\<lambda>(t, p). (t, Fin (p / sum_list ps))) (zip [1..int (length ps)] ps)))"
      using assms by (simp add: duration_years_def np_sum_Fin zip_map2 o_def)
    also have "\<dots> = Fin (sum_list (map (\<lambda>(t, p). real_of_int t * (p / sum_list ps))
        (zip [1..int (length ps)] ps)))"
      unfolding m np_sum_Fin ..
    finally show ?thesis using True by (simp only: weighted_sum_divide if_True)
  next
    case False
    then have "duration_years (map Fin ps) =
        np_sum (map (\<lambda>(t, wt). fl_mul (Fin (real_of_int t)) wt)
             (map (\<lambda>(t, p). (t, Fin 0)) (zip [1..int (length ps)] ps)))"
      using assms by (simp add: duration_years_def np_sum_Fin zip_map2 o_def)
    also have "\<dots> = Fin (sum_list (map (\<lambda>(t, p). real_of_int t * 0)
        (zip [1..int (length ps)] ps)))"
      unfolding m np_sum_Fin ..
    finally show ?thesis using False by (simp only: weighted_sum_zero if_False)
  qed
qed


lemma scenario_a_breakdown_computed:
  "base_case_breakdown (Fin (1331 / 10)) (Fin (5 / 100)) (Fin (10 / 100)) (Fin (3 / 100)) 5
     (Fin 1000) (Fin 0) default_bridge = Inr scenario_a_breakdown"
  unfolding scenario_a_breakdown_def by (rule scenario_a_base_case)

lemma diagnostics_duration:
  "duration_years_pv_cashflows (diagnostics base w tg yrs)
     = duration_years (pv_fcf_projections base)"
  by (simp add: diagnostics_def Let_def)

text \<open>
  C6, as the code has it. The cash-flow duration of the diagnostics is computed from the
  explicit-period PV array of the base case: when the array is non-empty and every entry
  is finite, it is the weighted average year \<open>\<Sum>(t * PV\<^sub>t) / \<Sum>(PV\<^sub>t)\<close> for \<open>t = 1..n\<close> if the
  sum of the entries is positive, and 0 if that sum is zero or negative; it is NaN when an
  entry is not finite (or the array is empty).
\<close>

theorem duration_years_weighted_average:
  "duration_years_pv_cashflows (diagnostics base w tg yrs) =
     (let pv = pv_fcf_projections base; ps = finite_values pv
      in if pv \<noteq> [] \<and> list_all isfinite pv then
           if 0 < sum_list ps
           then Fin (sum_list (map (\<lambda>(t, p). real_of_int t * p) (zip [1..int (length ps)] ps))
                     / sum_list ps)
           else Fin 0
         else NaN)"
proof (cases "pv_fcf_projections base \<noteq> [] \<and> list_all isfinite (pv_fcf_projections base)")
  case True
  let ?ps = "finite_values (pv_fcf_projections base)"
  from True have eq: "pv_fcf_projections base = map Fin ?ps"
    by (simp add: all_finite_map_Fin)
  with True have ne: "?ps \<noteq> []" by auto
  have "duration_years (pv_fcf_projections base) = duration_years (map Fin ?ps)"
    using eq by simp
  also note duration_years_finite [OF ne]
  finally show ?thesis using True by (simp add: diagnostics_duration Let_def)
next
  case False
  then show ?thesis by (auto simp: diagnostics_duration duration_years_def Let_def)
qed

theorem duration_years_weighted_average_witness:
  "duration_years_pv_cashflows (diagnostics scenario_a_breakdown (Fin (10 / 100)) (Fin (3 / 100)) 5)
     = Fin (3109177 / 1069531)
   \<and> duration_years_pv_cashflows
       (diagnostics (scenario_a_breakdown\<lparr>pv_fcf_projections := [Fin 2, Fin (- 3)]\<rparr>)
          (Fin (10 / 100)) (Fin (3 / 100)) 5) = Fin 0
   \<and> duration_years_pv_cashflows
       (diagnostics (scenario_a_breakdown\<lparr>pv_fcf_projections := [Fin 2, PInf]\<rparr>)
          (Fin (10 / 100)) (Fin (3 / 100)) 5) = NaN"
  using duration_years_weighted_average
      [of scenario_a_breakdown "Fin (10 / 100)" "Fin (3 / 100)" 5]
    duration_years_weighted_average
      [of "scenario_a_breakdown\<lparr>pv_fcf_projections := [Fin 2, Fin (- 3)]\<rparr>"
        "Fin (10 / 100)" "Fin (3 / 100)" 5]
    duration_years_weighted_average
      [of "scenario_a_breakdown\<lparr>pv_fcf_projections := [Fin 2, PInf]\<rparr>"
        "Fin (10 / 100)" "Fin (3 / 100)" 5]
  by (simp add: scenario_a_breakdown_def Let_def upto_1_5)

text \<open>
  C6 as stated fails: for an accepted call with growth -100% every explicit-period PV is
  zero, so their sum is zero, and the reported duration is 0, not NaN.
\<close>

theorem zero_pv_duration_counterexample:
  "map_sum id (pv_fcf_projections \<circ> res_base_case)
     (fst (calculate_dcf_valuation counter_rng (default_args [100] (- 1)) 0))
     = Inr [Fin 0, Fin 0, Fin 0, Fin 0, Fin 0]
   \<and> map_sum id (duration_years_pv_cashflows \<circ> res_diagnostics)
       (fst (calculate_dcf_valuation counter_rng (default_args [100] (- 1)) 0))
     = Inr (Fin 0)"
proof -
  let ?a = "default_args [100] (- 1)"
  have "\<exists>r. fst (calculate_dcf_valuation counter_rng ?a 0) = Inr r
      \<and> base_case_breakdown (resolved_base_fcf ?a) (to_nominal ?a (arg_fcf_growth_rate ?a))
               (to_nominal ?a (arg_wacc ?a)) (to_nominal ?a (arg_terminal_growth ?a))
               (arg_years ?a) (Fin (arg_shares_outstanding ?a))
               (Fin (arg_annual_share_change ?a))
               (case arg_bridge ?a of None \<Rightarrow> default_bridge | Some b \<Rightarrow> b)
             = Inr (res_base_case r)"
    using choice_ok_counter_rng
    by (intro calculate_returns)
       (simp_all add: default_args_def validate_inputs_def shares_path_def np_power_Fin)
  then obtain r where r: "fst (calculate_dcf_valuation counter_rng ?a 0) = Inr r"
    and b: "base_case_breakdown (resolved_base_fcf ?a) (to_nominal ?a (arg_fcf_growth_rate ?a))
               (to_nominal ?a (arg_wacc ?a)) (to_nominal ?a (arg_terminal_growth ?a))
               (arg_years ?a) (Fin (arg_shares_outstanding ?a))
               (Fin (arg_annual_share_change ?a))
               (case arg_bridge ?a of None \<Rightarrow> default_bridge | Some b \<Rightarrow> b)
             = Inr (res_base_case r)"
    by blast
  have "res_base_case r =
      \<lparr>enterprise_value = Fin 0, equity_value = Fin 0,
        equity_value_per_share = Fin 0, pv_explicit_period = Fin 0,
        pv_terminal_value = Fin 0, terminal_value_gordon = Fin 0,
        terminal_value_share_of_ev = NaN,
        fcf_projections = [Fin 0, Fin 0, Fin 0, Fin 0, Fin 0],
        pv_fcf_projections = [Fin 0, Fin 0, Fin 0, Fin 0, Fin 0],
        terminal_fcf_year = Fin 0, shares_end_year = Fin 1000000000\<rparr>"
    using b
    by (simp add: default_args_def resolved_base_fcf_def pick_base_fcf_def to_nominal_def
        base_case_breakdown_def project_fcf_def pv_series_def terminal_value_def
        py_div_def shares_path_def np_sum_def bridge_to_equity_def default_bridge_def
        np_power_Fin upto_1_5 Let_def power_divide)
  then have "pv_fcf_projections (res_base_case r) = [Fin 0, Fin 0, Fin 0, Fin 0, Fin 0]"
    by simp
  moreover from this have "duration_years_pv_cashflows (res_diagnostics r) = Fin 0"
    using calculate_result_fields [OF r]
    by (simp add: diagnostics_duration duration_years_def np_sum_def upto_1_5)
  ultimately show ?thesis unfolding r by simp
qed

section \<open>Summary of the per-share values\<close>



lemma finite_values_filter: "map Fin (finite_values xs) = filter isfinite xs"
  by (induction xs rule: finite_values.induct) simp_all


lemma finite_values_filter_isfinite: "finite_values (filter isfinite xs) = finite_values xs"
  by (induction xs rule: finite_values.induct) simp_all

text \<open>
  C8. Summarising an array that is empty or has no finite entry gives NaN for every
  statistic and count 0; otherwise every statistic is NumPy's reduction of the finite
  entries alone (which are the entries that pass \<open>np.isfinite\<close>, in order) and the count is
  their number.
\<close>

theorem summarize_mc_finite_entries:
  "(xs = [] \<or> (\<forall>x\<in>set xs. \<not> isfinite x) \<longrightarrow>
      summarize_mc (Arr xs) =
        Inr \<lparr>mc_mean = NaN, mc_median = NaN, mc_std = NaN, mc_p5 = NaN, mc_p25 = NaN,
             mc_p75 = NaN, mc_p95 = NaN, mc_min = NaN, mc_max = NaN, mc_count = 0\<rparr>)
   \<and> (\<not> (xs = [] \<or> (\<forall>x\<in>set xs. \<not> isfinite x)) \<longrightarrow>
      summarize_mc (Arr xs) =
        Inr \<lparr>mc_mean = Fin (np_mean (finite_values xs)),
             mc_median = Fin (np_median (finite_values xs)),
             mc_std = Fin (np_std (finite_values xs)),
             mc_p5 = Fin (np_percentile (finite_values xs) 5),
             mc_p25 = Fin (np_percentile (finite_values xs) 25),
             mc_p75 = Fin (np_percentile (finite_values xs) 75),
             mc_p95 = Fin (np_percentile (finite_values xs) 95),
             mc_min = Fin (np_amin (finite_values xs)),
             mc_max = Fin (np_amax (finite_values xs)),
             mc_count = length (filter isfinite xs)\<rparr>)
   \<and> map Fin (finite_values xs) = filter isfinite xs
   \<and> summarize_mc (Arr xs) = summarize_mc (Arr (filter isfinite xs))"
proof -
  have ex: "list_ex isfinite xs \<longleftrightarrow> \<not> (\<forall>x\<in>set xs. \<not> isfinite x)"
    by (simp add: list_ex_iff)
  have len: "length (filter isfinite xs) = length (finite_values xs)"
    using finite_values_filter [of xs, symmetric] by (metis length_map)
  have f: "filter isfinite xs = [] \<or> \<not> list_ex isfinite (filter isfinite xs)
      \<longleftrightarrow> xs = [] \<or> \<not> list_ex isfinite xs"
    by (auto simp: list_ex_iff filter_empty_conv)
  have "summarize_mc (Arr xs) = summarize_mc (Arr (filter isfinite xs))"
    unfolding summarize_mc_def using f
    by (simp add: finite_values_filter_isfinite Let_def)
  then show ?thesis
    using ex len finite_values_filter [of xs]
    by (simp add: summarize_mc_def nan_summary_def Let_def)
qed

theorem summarize_mc_finite_entries_witness:
  "summarize_mc (Arr [Fin 1, NaN, Fin 3, PInf]) =
     Inr \<lparr>mc_mean = Fin 2, mc_median = Fin 2, mc_std = Fin 1, mc_p5 = Fin (11 / 10),
          mc_p25 = Fin (3 / 2), mc_p75 = Fin (5 / 2), mc_p95 = Fin (29 / 10),
          mc_min = Fin 1, mc_max = Fin 3, mc_count = 2\<rparr>
   \<and> summarize_mc (Arr [NaN, PInf]) =
     Inr \<lparr>mc_mean = NaN, mc_median = NaN, mc_std = NaN, mc_p5 = NaN, mc_p25 = NaN,
          mc_p75 = NaN, mc_p95 = NaN, mc_min = NaN, mc_max = NaN, mc_count = 0\<rparr>"
proof -
  let ?xs = "[Fin 1, NaN, Fin 3, PInf]"
  have fv: "finite_values ?xs = [1, 3]" by simp
  have c: "length (filter isfinite ?xs) = 2" by simp
  have ev: "np_mean [1, 3] = 2" "np_median [1, 3] = 2" "np_std [1, 3] = 1"
    "np_percentile [1, 3] 5 = 11 / 10" "np_percentile [1, 3] 25 = 3 / 2"
    "np_percentile [1, 3] 75 = 5 / 2" "np_percentile [1, 3] 95 = 29 / 10"
    "np_amin [1, 3] = 1" "np_amax [1, 3] = 3"
    by (simp_all add: np_mean_def np_median_def np_std_def np_percentile_def np_amin_def
        np_amax_def Let_def)
  have "\<not> (?xs = [] \<or> (\<forall>x\<in>set ?xs. \<not> isfinite x))" by simp
  with summarize_mc_finite_entries [of ?xs]
  have "summarize_mc (Arr ?xs) =
        Inr \<lparr>mc_mean = Fin (np_mean (finite_values ?xs)),
             mc_median = Fin (np_median (finite_values ?xs)),
             mc_std = Fin (np_std (finite_values ?xs)),
             mc_p5 = Fin (np_percentile (finite_values ?xs) 5),
             mc_p25 = Fin (np_percentile (finite_values ?xs) 25),
             mc_p75 = Fin (np_percentile (finite_values ?xs) 75),
             mc_p95 = Fin (np_percentile (finite_values ?xs) 95),
             mc_min = Fin (np_amin (finite_values ?xs)),
             mc_max = Fin (np_amax (finite_values ?xs)),
             mc_count = length (filter isfinite ?xs)\<rparr>"
    by blast
  then have 1: "summarize_mc (Arr ?xs) =
     Inr \<lparr>mc_mean = Fin 2, mc_median = Fin 2, mc_std = Fin 1, mc_p5 = Fin (11 / 10),
          mc_p25 = Fin (3 / 2), mc_p75 = Fin (5 / 2), mc_p95 = Fin (29 / 10),
          mc_min = Fin 1, mc_max = Fin 3, mc_count = 2\<rparr>"
    unfolding fv c ev .
  have "[NaN, PInf] = [] \<or> (\<forall>x\<in>set [NaN, PInf]. \<not> isfinite x)" by simp
  with summarize_mc_finite_entries [of "[NaN, PInf]"]
  have 2: "summarize_mc (Arr [NaN, PInf]) =
     Inr \<lparr>mc_mean = NaN, mc_median = NaN, mc_std = NaN, mc_p5 = NaN, mc_p25 = NaN,
          mc_p75 = NaN, mc_p95 = NaN, mc_min = NaN, mc_max = NaN, mc_count = 0\<rparr>"
    by blast
  from 1 2 show ?thesis by (rule conjI)
qed

section \<open>Order of the summary statistics\<close>




















section \<open>Seeding\<close>



end
